theory Spec2Isabelle
  imports Complex_Main "HOL-Library.Log_Nat" "HOL-Library.Monad_Syntax"
begin

section \<open>JavaScript Numbers: the finite binary64 values\<close>

text \<open>
  Every number of \<^verbatim>\<open>script.js\<close> is an IEEE-754 binary64 value. A finite binary64 value is
  a rational, so a Number is modelled by the rational it denotes, and each arithmetic
  operator computes the exact rational result and rounds it to the nearest binary64 value,
  ties to even, as the language prescribes. An operation whose result is not a finite
  binary64 value (overflow, division by zero: \<^verbatim>\<open>Infinity\<close> or \<^verbatim>\<open>NaN\<close> in JavaScript) returns
  \<open>None\<close>: the model follows the program on the finite values only and says so.
  The sign of zero is not represented; it is observable only through a division by zero.
\<close>

type_synonym number = rat

text \<open>Round half to even, to an integer.\<close>

definition rne :: "rat \<Rightarrow> int" where
  "rne x = (let f = \<lfloor>x\<rfloor>; d = x - of_int f
            in if d < 1/2 \<or> (d = 1/2 \<and> even f) then f else f + 1)"

text \<open>The binade of a positive rational \<open>x\<close>: the \<open>e\<close> with \<open>2\<^sup>e \<le> x < 2\<^sup>e\<^sup>+\<^sup>1\<close>.\<close>

definition binade :: "rat \<Rightarrow> int" where
  "binade x = (case quotient_of x of (a, b) \<Rightarrow>
     (let d = bitlen a - bitlen b in if 2 powi d \<le> x then d else d - 1))"

text \<open>
  The exponent of the unit in the last place of a 53-bit significand; below the smallest
  normal binade (\<open>-1022\<close>) the spacing stays that of the subnormal numbers.
\<close>

definition ulp_exp :: "rat \<Rightarrow> int" where
  "ulp_exp x = max (binade x) (- 1022) - 52"

definition round_pos :: "rat \<Rightarrow> rat" where
  "round_pos x = of_int (rne (x / 2 powi ulp_exp x)) * 2 powi ulp_exp x"

text \<open>Rounding to nearest, ties to even, with an unbounded exponent above.\<close>

definition fl :: "rat \<Rightarrow> rat" where
  "fl x = (if x = 0 then 0 else if x < 0 then - round_pos (- x) else round_pos x)"

text \<open>\<^verbatim>\<open>Number.MAX_VALUE\<close>; a rounded result beyond it is \<^verbatim>\<open>Infinity\<close>.\<close>

definition MAX_VALUE :: rat where
  "MAX_VALUE = (2 ^ 53 - 1) * 2 ^ 971"

definition to_double :: "rat \<Rightarrow> number option" where
  "to_double x = (let y = fl x in if \<bar>y\<bar> \<le> MAX_VALUE then Some y else None)"

text \<open>A decimal literal of the source text denotes the nearest binary64 value.\<close>

definition literal :: "rat \<Rightarrow> number" where
  "literal x = fl x"

definition js_add :: "number \<Rightarrow> number \<Rightarrow> number option" where
  "js_add a b = to_double (a + b)"

definition js_sub :: "number \<Rightarrow> number \<Rightarrow> number option" where
  "js_sub a b = to_double (a - b)"

definition js_mul :: "number \<Rightarrow> number \<Rightarrow> number option" where
  "js_mul a b = to_double (a * b)"

definition js_div :: "number \<Rightarrow> number \<Rightarrow> number option" where
  "js_div a b = (if b = 0 then None else to_double (a / b))"

text \<open>\<^verbatim>\<open>Math.floor\<close> of a finite Number is exact.\<close>

definition Math_floor :: "number \<Rightarrow> int" where
  "Math_floor x = \<lfloor>x\<rfloor>"

section \<open>Numbers as strings\<close>

definition digit_char :: "nat \<Rightarrow> char" where
  "digit_char d = char_of (48 + d)"

fun to_radix :: "nat \<Rightarrow> nat \<Rightarrow> string" where
  "to_radix b n = (if b < 2 \<or> n < b then [digit_char n]
                   else to_radix b (n div b) @ [digit_char (n mod b)])"

declare to_radix.simps [simp del]

text \<open>\<^verbatim>\<open>n.toString(2)\<close> for an integral Number \<open>n\<close>: a sign and the binary digits.\<close>

definition toString2 :: "int \<Rightarrow> string" where
  "toString2 n = (if n < 0 then ''-'' @ to_radix 2 (nat (- n)) else to_radix 2 (nat n))"

text \<open>
  The string conversion of an integral Number (a template literal, an assignment to
  \<^verbatim>\<open>textContent\<close>): decimal digits below \<open>10\<^sup>2\<^sup>1\<close>; from there on JavaScript switches to the
  exponent notation, which is not modelled.
\<close>

definition ToString :: "int \<Rightarrow> string option" where
  "ToString n = (if 10 ^ 21 \<le> \<bar>n\<bar> then None
                 else Some (if n < 0 then ''-'' @ to_radix 10 (nat (- n)) else to_radix 10 (nat n)))"

text \<open>
  A JavaScript engine bounds the length of a string, and building a longer one throws a
  \<^verbatim>\<open>RangeError\<close>. The bound depends on the engine; the smallest one among the common
  engines is \<open>2\<^sup>2\<^sup>8 - 16\<close> characters (V8 on a 32-bit platform), so that a string of at most
  this length is built by each of them.
\<close>

definition max_string_length :: nat where
  "max_string_length = 2 ^ 28 - 16"

text \<open>
  \<^verbatim>\<open>s.padStart(maxLength, c)\<close> with a one-character filler: \<open>s\<close> itself when it has
  \<open>maxLength\<close> characters or more (nothing is built, nothing is cut), and otherwise \<open>s\<close> behind
  as many fillers as it lacks. The result is \<open>None\<close> when the padded string would be longer than
  \<open>max_string_length\<close>: there \<^verbatim>\<open>padStart\<close> throws a \<^verbatim>\<open>RangeError\<close> on the engines with this
  bound, and the model does not follow the program on the others.
\<close>

definition padStart :: "nat \<Rightarrow> char \<Rightarrow> string \<Rightarrow> string option" where
  "padStart maxLength c s =
     (if maxLength \<le> length s then Some s
      else if max_string_length < maxLength then None
      else Some (replicate (maxLength - length s) c @ s))"

text \<open>
  \<^verbatim>\<open>x.toFixed(f)\<close>: the integer \<open>n\<close> nearest to \<open>x * 10\<^sup>f\<close> (the larger one on a tie, taken on
  the absolute value), written with \<open>f\<close> digits after the point. From \<open>10\<^sup>2\<^sup>1\<close> on the
  result is the exponent notation, which is not modelled.
\<close>

definition toFixed :: "nat \<Rightarrow> number \<Rightarrow> string option" where
  "toFixed f x =
     (if 10 ^ 21 \<le> \<bar>x\<bar> then None
      else let n = nat \<lfloor>\<bar>x\<bar> * 10 ^ f + 1/2\<rfloor>;
               m = to_radix 10 n;
               m' = (if f \<noteq> 0 \<and> length m \<le> f
                     then replicate (f + 1 - length m) CHR ''0'' @ m else m);
               k = length m'
           in Some ((if x < 0 then ''-'' else []) @
                    (if f \<noteq> 0 then take (k - f) m' @ ''.'' @ drop (k - f) m' else m')))"

text \<open>The value of a string of binary digits, most significant first.\<close>

definition parseBinary :: "string \<Rightarrow> nat" where
  "parseBinary s = foldl (\<lambda>acc c. 2 * acc + (if c = CHR ''1'' then 1 else 0)) 0 s"

section \<open>Configuration and application state\<close>

record config =
  UPDATE_INTERVAL :: number
  ANIMATION_INTERVAL :: number
  ADC_BITS :: number
  ADC_MAX :: number
  VOLTAGE_REF :: number
  TEMP_MIN :: number
  TEMP_MAX :: number
  PIR_DETECTION_CHANCE :: number

text \<open>
  The object \<^verbatim>\<open>Config\<close> of the source. The functions below take the configuration as an
  argument: the object is exported through \<^verbatim>\<open>window.IoTApp.config\<close> and its properties can
  be assigned, and every function reads them at the time of the call.
\<close>

definition Config :: config where
  "Config = \<lparr> UPDATE_INTERVAL = 3000, ANIMATION_INTERVAL = 1500, ADC_BITS = 12,
     ADC_MAX = 4095, VOLTAGE_REF = literal (33/10), TEMP_MIN = 20, TEMP_MAX = 25,
     PIR_DETECTION_CHANCE = literal (6/10) \<rparr>"

text \<open>
  \<^verbatim>\<open>AppState.data.activeStage\<close> is a Number that is only ever \<open>0\<close>, a remainder, or
  \<^verbatim>\<open>NaN\<close> (the remainder by zero when there is no stage card).
\<close>

datatype stage_index = Stage nat | StageNaN

record element =
  textContent :: string
  innerHTML :: string
  classList :: "string list"
  style :: "string \<rightharpoonup> string"

datatype callback = TemperatureTick | PirTick | AnimationTick | CardFadeIn nat

record timer =
  timer_id :: nat
  timer_callback :: callback
  timer_delay :: number
  timer_repeats :: bool

datatype log_entry =
  LogInitializing | LogReady | LogSwitching string | LogCleaningUp
  | LogPageHidden | LogPageVisible

text \<open>
  The mutable state the script works on: \<^verbatim>\<open>AppState\<close> (its fields flattened, the three
  interval handles suffixed), the cache \<^verbatim>\<open>Elements\<close> of the page's elements by property
  name (\<open>None\<close> is \<^verbatim>\<open>null\<close>) with the properties of each element the script assigns, the
  stage cards, the browser's table of pending timers, the click listeners and the console.
\<close>

record world =
  currentMode :: string
  animationFrameId :: "nat option"
  temperatureInterval :: "nat option"
  pirInterval :: "nat option"
  animationInterval :: "nat option"
  temperature :: number
  voltage :: number
  adcValue :: int
  pirDetected :: bool
  activeStage :: stage_index
  Elements :: "string \<rightharpoonup> element"
  stageCards :: "element list"
  timers :: "timer list"
  nextTimer :: nat
  clickListeners :: "(string \<times> string) list"
  console :: "log_entry list"

text \<open>The state when the script has been loaded and \<^verbatim>\<open>init\<close> has not run yet.\<close>

definition AppState :: world where
  "AppState = \<lparr> currentMode = ''analog'', animationFrameId = None,
     temperatureInterval = None, pirInterval = None, animationInterval = None,
     temperature = 45/2, voltage = literal (245/100), adcValue = 3041,
     pirDetected = True, activeStage = Stage 0,
     Elements = Map.empty, stageCards = [], timers = [], nextTimer = 1,
     clickListeners = [], console = [] \<rparr>"

text \<open>The page, as far as \<^verbatim>\<open>cacheElements\<close> reads it.\<close>

record document =
  getElementById :: "string \<rightharpoonup> element"
  stage_card_elements :: "element list"


section \<open>Initialisation helpers\<close>

definition element_names :: "string list" where
  "element_names =
     [''analogBtn'', ''digitalBtn'', ''modeText'',
      ''sensorIconWrapper'', ''sensorTitle'', ''sensorDescription'', ''sensorValue'',
      ''sensorVoltage'', ''sensorState'',
      ''processingDescription'', ''analogProcessing'', ''digitalProcessing'', ''adcValue'',
      ''binaryValue'', ''jsonPreview'', ''gpioState'', ''gpioVoltage'', ''pirBinary'',
      ''pirJsonPreview'', ''pirPayloadBit'',
      ''appDisplay'', ''appAction'']"

text \<open>
  \<^verbatim>\<open>cacheElements\<close>: each property of \<^verbatim>\<open>Elements\<close> is the element of the page with the id of
  the same name, or \<^verbatim>\<open>null\<close>; \<^verbatim>\<open>stageCards\<close> is the array of the elements of class
  \<^verbatim>\<open>stage-card\<close>.
\<close>

definition cacheElements :: "document \<Rightarrow> world \<Rightarrow> world" where
  "cacheElements doc w =
     w\<lparr> Elements := (\<lambda>name. if name \<in> set element_names then getElementById doc name else None),
        stageCards := stage_card_elements doc \<rparr>"

text \<open>
  \<^verbatim>\<open>setupEventListeners\<close>: a click on either button calls \<^verbatim>\<open>switchMode\<close> with the mode
  recorded here. (The smooth scrolling of anchor links does not touch the state.)
\<close>

definition setupEventListeners :: "world \<Rightarrow> world" where
  "setupEventListeners w =
     (let l1 = (if Elements w ''analogBtn'' \<noteq> None then [(''analogBtn'', ''analog'')] else []);
          l2 = (if Elements w ''digitalBtn'' \<noteq> None then [(''digitalBtn'', ''digital'')] else [])
      in w\<lparr> clickListeners := clickListeners w @ l1 @ l2 \<rparr>)"

definition console_log :: "log_entry \<Rightarrow> world \<Rightarrow> world" where
  "console_log entry w = w\<lparr> console := console w @ [entry] \<rparr>"

section \<open>Utility functions\<close>

text \<open>\<^verbatim>\<open>setElementText\<close>: nothing on \<^verbatim>\<open>null\<close>, and no assignment of an unchanged text.\<close>

definition setElementText :: "string \<Rightarrow> string \<Rightarrow> world \<Rightarrow> world" where
  "setElementText name text w =
     (case Elements w name of
        None \<Rightarrow> w
      | Some e \<Rightarrow>
          if textContent e \<noteq> text
          then w\<lparr> Elements := (Elements w)(name \<mapsto> e\<lparr> textContent := text \<rparr>) \<rparr>
          else w)"

text \<open>An assignment \<^verbatim>\<open>element.style.prop = value\<close> behind a check that the element exists.\<close>

definition setStyle :: "string \<Rightarrow> string \<Rightarrow> string \<Rightarrow> world \<Rightarrow> world" where
  "setStyle name prop val w =
     (case Elements w name of
        None \<Rightarrow> w
      | Some e \<Rightarrow> w\<lparr> Elements := (Elements w)(name \<mapsto> e\<lparr> style := (style e)(prop \<mapsto> val) \<rparr>) \<rparr>)"

definition showElement :: "string \<Rightarrow> world \<Rightarrow> world" where
  "showElement name w = setStyle name ''display'' ''grid'' w"

definition hideElement :: "string \<Rightarrow> world \<Rightarrow> world" where
  "hideElement name w = setStyle name ''display'' ''none'' w"

definition animateValueUpdate :: "string \<Rightarrow> world \<Rightarrow> world" where
  "animateValueUpdate name w =
     setStyle name ''animation'' ''valueFlash 0.5s ease'' (setStyle name ''animation'' ''none'' w)"

section \<open>Timers\<close>

definition setInterval :: "callback \<Rightarrow> number \<Rightarrow> world \<Rightarrow> nat \<times> world" where
  "setInterval cb ms w =
     (nextTimer w,
      w\<lparr> timers := timers w @ [\<lparr> timer_id = nextTimer w, timer_callback = cb,
                                  timer_delay = ms, timer_repeats = True \<rparr>],
         nextTimer := nextTimer w + 1 \<rparr>)"

definition setTimeout :: "callback \<Rightarrow> number \<Rightarrow> world \<Rightarrow> world" where
  "setTimeout cb ms w =
     w\<lparr> timers := timers w @ [\<lparr> timer_id = nextTimer w, timer_callback = cb,
                                 timer_delay = ms, timer_repeats = False \<rparr>],
        nextTimer := nextTimer w + 1 \<rparr>"

definition clearInterval :: "nat \<Rightarrow> world \<Rightarrow> world" where
  "clearInterval i w = w\<lparr> timers := filter (\<lambda>t. timer_id t \<noteq> i) (timers w) \<rparr>"

section \<open>Mode switching\<close>

definition classList_remove :: "string \<Rightarrow> string \<Rightarrow> world \<Rightarrow> world" where
  "classList_remove name cls w =
     (case Elements w name of
        None \<Rightarrow> w
      | Some e \<Rightarrow> w\<lparr> Elements := (Elements w)(name \<mapsto> e\<lparr> classList := removeAll cls (classList e) \<rparr>) \<rparr>)"

definition classList_add :: "string \<Rightarrow> string \<Rightarrow> world \<Rightarrow> world" where
  "classList_add name cls w =
     (case Elements w name of
        None \<Rightarrow> w
      | Some e \<Rightarrow>
          w\<lparr> Elements := (Elements w)(name \<mapsto>
               e\<lparr> classList := (if cls \<in> set (classList e) then classList e
                                 else classList e @ [cls]) \<rparr>) \<rparr>)"

definition updateModeButtons :: "string \<Rightarrow> world \<Rightarrow> world" where
  "updateModeButtons mode w =
     (let w1 = classList_remove ''digitalBtn'' ''active''
                 (classList_remove ''analogBtn'' ''active'' w);
          activeBtn = (if mode = ''analog'' then ''analogBtn'' else ''digitalBtn'')
      in classList_add activeBtn ''active'' w1)"

definition updateModeText :: "string \<Rightarrow> world \<Rightarrow> world" where
  "updateModeText mode w =
     (case Elements w ''modeText'' of
        None \<Rightarrow> w
      | Some e \<Rightarrow>
          w\<lparr> Elements := (Elements w)(''modeText'' \<mapsto>
               e\<lparr> textContent := (if mode = ''analog'' then ''Capteur Analogique''
                                   else ''Capteur Num'' @ [CHR 0xE9] @ ''rique'') \<rparr>) \<rparr>)"

definition getAnalogSensorIcon :: string where
  \<open>getAnalogSensorIcon = ''<svg class="stage-icon" viewBox="0 0 24 24" fill="none" stroke="currentColor" stroke-width="2"><path d="M3 12c2-4 4-4 6 0s4 4 6 0 4-4 6 0"></path></svg>''\<close>

definition getDigitalSensorIcon :: string where
  \<open>getDigitalSensorIcon = ''<svg class="stage-icon" viewBox="0 0 24 24" fill="none" stroke="currentColor" stroke-width="2"><path d="M5 12.55a11 11 0 0 1 14.08 0"></path><path d="M1.42 9a16 16 0 0 1 21.16 0"></path><path d="M8.53 16.11a6 6 0 0 1 6.95 0"></path><line x1="12" y1="20" x2="12.01" y2="20"></line></svg>''\<close>

definition setSensorIcon :: "string \<Rightarrow> world \<Rightarrow> world" where
  "setSensorIcon svg w =
     (case Elements w ''sensorIconWrapper'' of
        None \<Rightarrow> w
      | Some e \<Rightarrow> w\<lparr> Elements := (Elements w)(''sensorIconWrapper'' \<mapsto> e\<lparr> innerHTML := svg \<rparr>) \<rparr>)"

definition updateSensorDisplay :: "string \<Rightarrow> world \<Rightarrow> world" where
  "updateSensorDisplay mode w =
     (if mode = ''analog''
      then setSensorIcon getAnalogSensorIcon
             (setElementText ''sensorDescription'' ''Signal Analogique''
               (setElementText ''sensorTitle'' ''Capteur Analogique'' w))
      else setSensorIcon getDigitalSensorIcon
             (setElementText ''sensorDescription'' (''Signal Num'' @ [CHR 0xE9] @ ''rique'')
               (setElementText ''sensorTitle'' ''Capteur PIR'' w)))"

definition updateProcessingDisplay :: "string \<Rightarrow> world \<Rightarrow> world" where
  "updateProcessingDisplay mode w =
     (if mode = ''analog''
      then hideElement ''digitalProcessing''
             (showElement ''analogProcessing''
               (setElementText ''processingDescription'' ''ADC + Codage'' w))
      else showElement ''digitalProcessing''
             (hideElement ''analogProcessing''
               (setElementText ''processingDescription'' ''Codage Direct'' w)))"

definition updateApplicationDisplay :: "string \<Rightarrow> world \<Rightarrow> world" where
  "updateApplicationDisplay mode w =
     (if mode = ''analog''
      then setElementText ''appAction'' ''Chauffage'' w
      else setElementText ''appAction'' ([CHR 0xC9] @ ''clairage'') w)"

text \<open>
  \<^verbatim>\<open>animateModeTransition\<close>: every stage card is faded out at once, and a timeout of
  \<open>index * 100\<close> milliseconds is set to fade it in again (\<open>CardFadeIn index\<close>).
\<close>

definition fadeOut :: "element \<Rightarrow> element" where
  "fadeOut c = c\<lparr> style := (style c)(''opacity'' \<mapsto> ''0'', ''transform'' \<mapsto> ''scale(0.95)'') \<rparr>"

definition fadeIn :: "element \<Rightarrow> element" where
  "fadeIn c = c\<lparr> style := (style c)(''transition'' \<mapsto> ''all 0.5s ease'',
                                    ''opacity'' \<mapsto> ''1'', ''transform'' \<mapsto> ''scale(1)'') \<rparr>"

definition animateModeTransition :: "world \<Rightarrow> world" where
  "animateModeTransition w =
     foldl (\<lambda>w' index. setTimeout (CardFadeIn index) (of_nat index * 100) w')
       (w\<lparr> stageCards := map fadeOut (stageCards w) \<rparr>)
       [0 ..< length (stageCards w)]"

definition switchMode :: "string \<Rightarrow> world \<Rightarrow> world" where
  "switchMode mode w =
     (if currentMode w = mode then w
      else
        let w1 = console_log (LogSwitching mode) w;
            w2 = w1\<lparr> currentMode := mode \<rparr>;
            w3 = updateModeButtons mode w2;
            w4 = updateModeText mode w3;
            w5 = updateSensorDisplay mode w4;
            w6 = updateProcessingDisplay mode w5;
            w7 = updateApplicationDisplay mode w6
        in animateModeTransition w7)"


section \<open>Real-time data updates\<close>

text \<open>
  \<^verbatim>\<open>updateTemperatureData\<close>; the argument \<open>r\<close> is the value of \<^verbatim>\<open>Math.random()\<close>, a Number
  with \<open>0 \<le> r < 1\<close>.
\<close>

definition updateTemperatureData :: "config \<Rightarrow> number \<Rightarrow> world \<Rightarrow> world option" where
  "updateTemperatureData cfg r w =
     do {
       width \<leftarrow> js_sub (TEMP_MAX cfg) (TEMP_MIN cfg);
       offset \<leftarrow> js_mul r width;
       t \<leftarrow> js_add (TEMP_MIN cfg) offset;
       delta \<leftarrow> js_sub t (TEMP_MIN cfg);
       scaled \<leftarrow> js_mul delta (literal (1/10));
       v \<leftarrow> js_add 2 scaled;
       ratio \<leftarrow> js_div v (VOLTAGE_REF cfg);
       raw \<leftarrow> js_mul ratio (ADC_MAX cfg);
       Some (w\<lparr> temperature := t, voltage := v, adcValue := Math_floor raw \<rparr>)
     }"

definition updatePIRData :: "config \<Rightarrow> number \<Rightarrow> world \<Rightarrow> world" where
  "updatePIRData cfg r w = w\<lparr> pirDetected := (r < PIR_DETECTION_CHANCE cfg) \<rparr>"

text \<open>
  The local constant \<^verbatim>\<open>binary\<close> of \<^verbatim>\<open>updateAnalogDisplay\<close>. The length handed to \<^verbatim>\<open>padStart\<close>
  is the integral part of \<^verbatim>\<open>ADC_BITS\<close>, and 0 when that is negative.
\<close>

definition binaryString :: "config \<Rightarrow> int \<Rightarrow> string option" where
  "binaryString cfg adc = padStart (nat \<lfloor>ADC_BITS cfg\<rfloor>) CHR ''0'' (toString2 adc)"

text \<open>
  \<^verbatim>\<open>updateAnalogDisplay\<close>; \<open>now\<close> is the value of \<^verbatim>\<open>Date.now()\<close>. The Number \<^verbatim>\<open>adc\<close> handed to
  \<^verbatim>\<open>setElementText\<close> never equals the element's text, a string, so that the text is always
  assigned and becomes the string conversion of the Number.
\<close>

definition updateAnalogDisplay :: "config \<Rightarrow> number \<Rightarrow> world \<Rightarrow> world option" where
  \<open>updateAnalogDisplay cfg now w =
     do {
       temp \<leftarrow> toFixed 1 (temperature w);
       volt \<leftarrow> toFixed 2 (voltage w);
       let adc = adcValue w;
       binary \<leftarrow> binaryString cfg adc;
       adcText \<leftarrow> ToString adc;
       seconds \<leftarrow> js_div now 1000;
       ts \<leftarrow> ToString (Math_floor seconds);
       let w1 = setElementText ''sensorValue'' (temp @ [CHR 0xB0, CHR ''C'']) w;
       let w2 = setElementText ''sensorVoltage'' (volt @ ''V'') w1;
       let w3 = setElementText ''sensorState'' ''Actif'' w2;
       let w4 = setElementText ''adcValue'' adcText w3;
       let w5 = setElementText ''binaryValue'' binary w4;
       let w6 = setElementText ''jsonPreview'' (''{"temp": '' @ temp @ '', "ts": '' @ ts @ ''}'') w5;
       let w7 = setElementText ''appDisplay'' (temp @ [CHR 0xB0, CHR ''C'']) w6;
       Some (animateValueUpdate ''sensorValue'' w7)
     }\<close>

definition updateDigitalDisplay :: "world \<Rightarrow> world" where
  "updateDigitalDisplay w =
     (let detected = pirDetected w;
          state = (if detected then ''HIGH'' else ''LOW'');
          volt = (if detected then ''3.3V'' else ''0V'');
          binary = (if detected then ''1'' else ''0'');
          status = (if detected then ''Mouvement'' else ''Aucun'');
          w1 = setElementText ''sensorValue'' status w;
          w2 = setElementText ''sensorVoltage'' volt w1;
          w3 = setElementText ''sensorState'' state w2;
          w4 = setElementText ''gpioState'' state w3;
          w5 = setElementText ''gpioVoltage'' volt w4;
          w6 = setElementText ''pirBinary'' binary w5;
          w7 = setElementText ''pirPayloadBit'' binary w6;
          w8 = setElementText ''appDisplay'' status w7;
          w9 = setStyle ''sensorValue'' ''color'' (if detected then ''#10b981'' else ''#94a3b8'') w8
      in animateValueUpdate ''sensorValue'' w9)"

definition updateDisplay :: "config \<Rightarrow> number \<Rightarrow> world \<Rightarrow> world option" where
  "updateDisplay cfg now w =
     (if currentMode w = ''analog'' then updateAnalogDisplay cfg now w
      else Some (updateDigitalDisplay w))"

text \<open>The two callbacks that \<^verbatim>\<open>startRealTimeUpdates\<close> hands to \<^verbatim>\<open>setInterval\<close>.\<close>

definition temperatureTick :: "config \<Rightarrow> number \<Rightarrow> number \<Rightarrow> world \<Rightarrow> world option" where
  "temperatureTick cfg r now w =
     (if currentMode w = ''analog''
      then do { w1 \<leftarrow> updateTemperatureData cfg r w; updateDisplay cfg now w1 }
      else Some w)"

definition pirTick :: "config \<Rightarrow> number \<Rightarrow> number \<Rightarrow> world \<Rightarrow> world option" where
  "pirTick cfg r now w =
     (if currentMode w = ''digital''
      then updateDisplay cfg now (updatePIRData cfg r w)
      else Some w)"

text \<open>\<^verbatim>\<open>startRealTimeUpdates\<close>; \<open>r1\<close> and \<open>r2\<close> are the two values of \<^verbatim>\<open>Math.random()\<close>.\<close>

definition startRealTimeUpdates :: "config \<Rightarrow> number \<Rightarrow> number \<Rightarrow> world \<Rightarrow> world option" where
  "startRealTimeUpdates cfg r1 r2 w =
     do {
       w1 \<leftarrow> updateTemperatureData cfg r1 w;
       let w2 = updatePIRData cfg r2 w1;
       let (i, w3) = setInterval TemperatureTick (UPDATE_INTERVAL cfg) w2;
       let w4 = w3\<lparr> temperatureInterval := Some i \<rparr>;
       let (j, w5) = setInterval PirTick (UPDATE_INTERVAL cfg) w4;
       Some (w5\<lparr> pirInterval := Some j \<rparr>)
     }"

section \<open>Stage animations\<close>

definition updateStageCardState :: "element \<Rightarrow> bool \<Rightarrow> element" where
  "updateStageCardState c isActive =
     (if isActive
      then c\<lparr> style := (style c)(''borderColor'' \<mapsto> ''#06b6d4'',
                 ''boxShadow'' \<mapsto> ''0 0 40px rgba(6, 182, 212, 0.4)'',
                 ''transform'' \<mapsto> ''scale(1.02)'') \<rparr>
      else c\<lparr> style := (style c)(''borderColor'' \<mapsto> ''rgba(148, 163, 184, 0.2)'',
                 ''boxShadow'' \<mapsto> ''0 4px 16px rgba(0, 0, 0, 0.3)'',
                 ''transform'' \<mapsto> ''scale(1)'') \<rparr>)"

text \<open>
  \<^verbatim>\<open>cycleActiveStage\<close>. The remainder by zero is \<^verbatim>\<open>NaN\<close>, and so is every later sum and
  remainder; \<^verbatim>\<open>NaN\<close> equals no index. (The stage index stays below the number of cards, far
  from \<open>2\<^sup>5\<^sup>3\<close>, where adding one is exact.)
\<close>

definition cycleActiveStage :: "world \<Rightarrow> world" where
  "cycleActiveStage w =
     (let totalStages = length (stageCards w);
          next = (case activeStage w of
                    Stage p \<Rightarrow> if totalStages = 0 then StageNaN
                               else Stage ((p + 1) mod totalStages)
                  | StageNaN \<Rightarrow> StageNaN)
      in w\<lparr> activeStage := next,
            stageCards := map (\<lambda>(index, c). updateStageCardState c (Stage index = next))
                            (zip [0 ..< totalStages] (stageCards w)) \<rparr>)"

definition startStageAnimations :: "config \<Rightarrow> world \<Rightarrow> world" where
  "startStageAnimations cfg w =
     (let w1 = w\<lparr> activeStage := Stage 0 \<rparr>;
          (i, w2) = setInterval AnimationTick (ANIMATION_INTERVAL cfg) w1
      in w2\<lparr> animationInterval := Some i \<rparr>)"

text \<open>The callback of the timeouts set by \<^verbatim>\<open>animateModeTransition\<close>.\<close>

definition cardFadeIn :: "nat \<Rightarrow> world \<Rightarrow> world" where
  "cardFadeIn index w =
     (if index < length (stageCards w)
      then w\<lparr> stageCards := (stageCards w)[index := fadeIn (stageCards w ! index)] \<rparr>
      else w)"

section \<open>Initialisation, cleanup and the page's events\<close>

definition init :: "config \<Rightarrow> document \<Rightarrow> number \<Rightarrow> number \<Rightarrow> number \<Rightarrow> world \<Rightarrow> world option" where
  "init cfg doc r1 r2 now w =
     do {
       let w1 = console_log LogInitializing w;
       let w2 = cacheElements doc w1;
       let w3 = setupEventListeners w2;
       w4 \<leftarrow> startRealTimeUpdates cfg r1 r2 w3;
       let w5 = startStageAnimations cfg w4;
       w6 \<leftarrow> updateDisplay cfg now w5;
       Some (console_log LogReady w6)
     }"

text \<open>
  \<^verbatim>\<open>cleanup\<close>: every interval handle that is truthy (set, and not \<open>0\<close>) is cleared; the handles
  themselves stay in \<^verbatim>\<open>AppState\<close>. No animation frame is ever requested.
\<close>

definition clearIfSet :: "nat option \<Rightarrow> world \<Rightarrow> world" where
  "clearIfSet interval w =
     (case interval of None \<Rightarrow> w | Some i \<Rightarrow> if i \<noteq> 0 then clearInterval i w else w)"

definition cleanup :: "world \<Rightarrow> world" where
  "cleanup w =
     (let w1 = console_log LogCleaningUp w
      in clearIfSet (animationInterval w1)
           (clearIfSet (pirInterval w1)
             (clearIfSet (temperatureInterval w1) w1)))"

text \<open>
  What can happen to a running page: a click on a mode button or a call of the exported
  \<^verbatim>\<open>switchMode\<close>, a timer that fires (with the random value and the time its callback
  reads), the page being hidden or shown again, and the unloading of the page.
\<close>

datatype event =
  SwitchMode string
  | TemperatureTimer number number
  | PirTimer number number
  | AnimationTimer
  | FadeInTimer nat
  | PageHidden
  | PageVisible number number
  | BeforeUnload

definition handle :: "config \<Rightarrow> event \<Rightarrow> world \<Rightarrow> world option" where
  "handle cfg ev w =
     (case ev of
        SwitchMode mode \<Rightarrow> Some (switchMode mode w)
      | TemperatureTimer r now \<Rightarrow> temperatureTick cfg r now w
      | PirTimer r now \<Rightarrow> pirTick cfg r now w
      | AnimationTimer \<Rightarrow> Some (cycleActiveStage w)
      | FadeInTimer index \<Rightarrow> Some (cardFadeIn index w)
      | PageHidden \<Rightarrow> Some (cleanup (console_log LogPageHidden w))
      | PageVisible r1 r2 \<Rightarrow>
          do {
            w1 \<leftarrow> startRealTimeUpdates cfg r1 r2 (console_log LogPageVisible w);
            Some (startStageAnimations cfg w1)
          }
      | BeforeUnload \<Rightarrow> Some (cleanup w))"

fun run :: "config \<Rightarrow> event list \<Rightarrow> world \<Rightarrow> world option" where
  "run cfg [] w = Some w"
| "run cfg (ev # evs) w = (case handle cfg ev w of None \<Rightarrow> None | Some w' \<Rightarrow> run cfg evs w')"


section \<open>A page to run the script on\<close>

text \<open>
  A page that has every element the script looks up, all of them empty, and three stage
  cards; \<open>page_state\<close> is the initial state with the elements of this page cached, the
  concrete state of the examples below.
\<close>

definition blank :: element where
  "blank = \<lparr> textContent = [], innerHTML = [], classList = [], style = Map.empty \<rparr>"

definition example_page :: document where
  "example_page =
     \<lparr> getElementById = (\<lambda>name. if name \<in> set element_names then Some blank else None),
       stage_card_elements = [blank, blank, blank] \<rparr>"

definition page_state :: world where
  "page_state = cacheElements example_page AppState"

text \<open>The text of a cached element, \<open>None\<close> when the page does not have the element.\<close>

definition textOf :: "world \<Rightarrow> string \<Rightarrow> string option" where
  "textOf w name = map_option textContent (Elements w name)"

section \<open>Properties of the rounding\<close>

subsection \<open>Rounding is monotone\<close>

lemma bitlen_powi:
  assumes "0 < a"
  shows "2 powi (bitlen a - 1) \<le> (of_int a :: rat)" and "(of_int a :: rat) < 2 powi (bitlen a)"
proof -
  from bitlen_bounds[OF assms]
  have lo: "2 ^ nat (bitlen a - 1) \<le> a" and hi: "a < 2 ^ nat (bitlen a)"
    by auto
  have pos: "1 \<le> bitlen a"
    using assms by (simp add: bitlen_def floorlog_def)
  have "(of_int (2 ^ nat (bitlen a - 1)) :: rat) \<le> of_int a"
    using lo of_int_le_iff by blast
  then show "2 powi (bitlen a - 1) \<le> (of_int a :: rat)"
    using pos by (simp add: power_int_def)
  have "(of_int a :: rat) < of_int (2 ^ nat (bitlen a))"
    using hi of_int_less_iff by blast
  then show "(of_int a :: rat) < 2 powi (bitlen a)"
    using pos by (simp add: power_int_def)
qed

lemma binade_bounds:
  assumes "0 < x"
  shows "2 powi (binade x) \<le> x" and "x < 2 powi (binade x + 1)"
proof -
  obtain a b where q: "quotient_of x = (a, b)"
    by (cases "quotient_of x")
  have b: "0 < b"
    using q quotient_of_denom_pos by blast
  have x: "x = of_int a / of_int b"
    using q quotient_of_div by blast
  have a: "0 < a"
    using assms b x by (simp add: zero_less_divide_iff)
  define d where "d = bitlen a - bitlen b"
  have A: "0 < (of_int a :: rat)" and B: "0 < (of_int b :: rat)"
    using a b by simp_all
  have P: "(0::rat) < 2 powi (bitlen b - 1)" "(0::rat) < 2 powi (bitlen a - 1)"
    by simp_all
  have "of_int a / of_int b < 2 powi (bitlen a) / (2::rat) powi (bitlen b - 1)"
    using A bitlen_powi(2)[OF a] P(1) bitlen_powi(1)[OF b] by (intro frac_less) simp_all
  also have "\<dots> = 2 powi (d + 1)"
    by (simp add: d_def power_int_diff[symmetric] algebra_simps)
  finally have hi: "x < 2 powi (d + 1)"
    using x by simp
  have "2 powi (bitlen a - 1) / (2::rat) powi (bitlen b) < of_int a / of_int b"
    using P(2) bitlen_powi(1)[OF a] B bitlen_powi(2)[OF b] by (intro frac_less2) simp_all
  moreover have "2 powi (bitlen a - 1) / 2 powi (bitlen b) = (2::rat) powi (d - 1)"
    by (simp add: d_def power_int_diff[symmetric] algebra_simps)
  ultimately have lo: "2 powi (d - 1) < x"
    using x by simp
  have e: "binade x = (if 2 powi d \<le> x then d else d - 1)"
    by (simp add: binade_def q d_def Let_def)
  show "2 powi (binade x) \<le> x"
    using e lo by (simp split: if_splits)
  show "x < 2 powi (binade x + 1)"
    using e hi by (simp split: if_splits)
qed

lemma binade_mono:
  assumes "0 < x" and "x \<le> y"
  shows "binade x \<le> binade y"
proof (rule ccontr)
  assume "\<not> binade x \<le> binade y"
  then have "binade y + 1 \<le> binade x"
    by simp
  then have "(2::rat) powi (binade y + 1) \<le> 2 powi (binade x)"
    by (simp add: power_int_increasing)
  moreover have "y < 2 powi (binade y + 1)"
    using assms binade_bounds(2)[of y] by simp
  moreover have "2 powi (binade x) \<le> x"
    using assms binade_bounds(1) by simp
  ultimately show False
    using assms by linarith
qed

lemma rne_of_int: "rne (of_int n) = n"
  by (simp add: rne_def)

lemma rne_mono:
  assumes "x \<le> y"
  shows "rne x \<le> rne y"
proof (cases "\<lfloor>x\<rfloor> = \<lfloor>y\<rfloor>")
  case True
  then show ?thesis
    using assms by (auto simp: rne_def Let_def)
next
  case False
  moreover have "\<lfloor>x\<rfloor> \<le> \<lfloor>y\<rfloor>"
    using assms by (rule floor_mono)
  ultimately have "\<lfloor>x\<rfloor> + 1 \<le> \<lfloor>y\<rfloor>"
    by linarith
  moreover have "rne x \<le> \<lfloor>x\<rfloor> + 1" and "\<lfloor>y\<rfloor> \<le> rne y"
    by (simp_all add: rne_def Let_def)
  ultimately show ?thesis
    by linarith
qed

lemma round_pos_le_grid:
  assumes "x \<le> of_int n * 2 powi ulp_exp x"
  shows "round_pos x \<le> of_int n * 2 powi ulp_exp x"
proof -
  have u: "(0::rat) < 2 powi ulp_exp x"
    by simp
  have "x / 2 powi ulp_exp x \<le> of_int n"
    using assms u by (simp add: pos_divide_le_eq)
  then have "rne (x / 2 powi ulp_exp x) \<le> n"
    using rne_mono rne_of_int by metis
  then have "(of_int (rne (x / 2 powi ulp_exp x)) :: rat) \<le> of_int n"
    by simp
  then show ?thesis
    unfolding round_pos_def using u by (simp add: mult_right_mono)
qed

lemma round_pos_ge_grid:
  assumes "of_int n * 2 powi ulp_exp x \<le> x"
  shows "of_int n * 2 powi ulp_exp x \<le> round_pos x"
proof -
  have u: "(0::rat) < 2 powi ulp_exp x"
    by simp
  have "of_int n \<le> x / 2 powi ulp_exp x"
    using assms u by (simp add: pos_le_divide_eq)
  then have "n \<le> rne (x / 2 powi ulp_exp x)"
    using rne_mono rne_of_int by metis
  then have "(of_int n :: rat) \<le> of_int (rne (x / 2 powi ulp_exp x))"
    by simp
  then show ?thesis
    unfolding round_pos_def using u by (simp add: mult_right_mono)
qed

lemma powi_as_grid:
  assumes "j \<le> k"
  shows "(2::rat) powi k = of_int (2 ^ nat (k - j)) * 2 powi j"
proof -
  have "(2::rat) powi k = 2 powi (k - j) * 2 powi j"
    by (simp add: power_int_add[symmetric])
  also have "(2::rat) powi (k - j) = of_int (2 ^ nat (k - j))"
    using assms by (simp add: power_int_def)
  finally show ?thesis .
qed

lemma round_pos_mono:
  assumes "0 < x" and "x \<le> y"
  shows "round_pos x \<le> round_pos y"
proof (cases "ulp_exp x = ulp_exp y")
  case True
  have u: "(0::rat) < 2 powi ulp_exp y"
    by simp
  have "x / 2 powi ulp_exp y \<le> y / 2 powi ulp_exp y"
    using assms(2) u by (simp add: divide_right_mono)
  then have "(of_int (rne (x / 2 powi ulp_exp y)) :: rat) \<le> of_int (rne (y / 2 powi ulp_exp y))"
    using rne_mono by simp
  then show ?thesis
    unfolding round_pos_def True using u by (simp add: mult_right_mono)
next
  case False
  have y: "0 < y"
    using assms by simp
  have "ulp_exp x \<le> ulp_exp y"
    using binade_mono[OF assms] by (simp add: ulp_exp_def)
  with False have lt: "ulp_exp x < ulp_exp y"
    by simp
  define k where "k = binade y"
  have kx: "ulp_exp x \<le> k" "binade x + 1 \<le> k" "ulp_exp y \<le> k"
    using lt by (simp_all add: k_def ulp_exp_def max_def split: if_splits)
  have "x < 2 powi (binade x + 1)"
    using assms binade_bounds(2) by simp
  also have "\<dots> \<le> 2 powi k"
    using kx by (simp add: power_int_increasing)
  finally have "x \<le> of_int (2 ^ nat (k - ulp_exp x)) * 2 powi ulp_exp x"
    using powi_as_grid[OF kx(1)] by simp
  then have "round_pos x \<le> of_int (2 ^ nat (k - ulp_exp x)) * 2 powi ulp_exp x"
    by (rule round_pos_le_grid)
  then have below: "round_pos x \<le> 2 powi k"
    using powi_as_grid[OF kx(1)] by simp
  have "2 powi k \<le> y"
    using y binade_bounds(1) by (simp add: k_def)
  then have "of_int (2 ^ nat (k - ulp_exp y)) * 2 powi ulp_exp y \<le> y"
    using powi_as_grid[OF kx(3)] by simp
  then have "of_int (2 ^ nat (k - ulp_exp y)) * 2 powi ulp_exp y \<le> round_pos y"
    by (rule round_pos_ge_grid)
  then have "2 powi k \<le> round_pos y"
    using powi_as_grid[OF kx(3)] by simp
  with below show ?thesis
    by simp
qed

lemma round_pos_nonneg: "0 \<le> x \<Longrightarrow> 0 \<le> round_pos x"
  using round_pos_ge_grid[of 0 x] by simp

lemma fl_mono:
  assumes "x \<le> y"
  shows "fl x \<le> fl y"
proof -
  consider "0 < x" | "y < 0" | "x \<le> 0" and "0 \<le> y"
    by linarith
  then show ?thesis
  proof cases
    case 1
    then show ?thesis
      using assms round_pos_mono[of x y] by (simp add: fl_def)
  next
    case 2
    then show ?thesis
      using assms round_pos_mono[of "- y" "- x"] by (simp add: fl_def)
  next
    case 3
    have "fl x \<le> 0"
      using 3(1) round_pos_nonneg[of "- x"] by (simp add: fl_def)
    moreover have "0 \<le> fl y"
      using 3(2) round_pos_nonneg[of y] by (simp add: fl_def)
    ultimately show ?thesis
      by simp
  qed
qed

lemma to_double_Some: "to_double x = Some y \<Longrightarrow> y = fl x"
  by (simp add: to_double_def Let_def split: if_splits)

lemma to_double_between:
  assumes "lo \<le> x" and "x \<le> hi"
    and "fl lo = lo'" and "fl hi = hi'"
    and "- MAX_VALUE \<le> lo'" and "hi' \<le> MAX_VALUE"
  shows "to_double x = Some (fl x) \<and> lo' \<le> fl x \<and> fl x \<le> hi'"
proof -
  have "lo' \<le> fl x" and "fl x \<le> hi'"
    using assms fl_mono by auto
  moreover from this have "\<bar>fl x\<bar> \<le> MAX_VALUE"
    using assms(5,6) by (simp add: abs_le_iff)
  ultimately show ?thesis
    by (simp add: to_double_def)
qed

lemma MAX_VALUE_ge: "10 ^ 30 \<le> MAX_VALUE"
  by (simp add: MAX_VALUE_def)

lemma js_eval:
  "fl (a + b) = y \<Longrightarrow> \<bar>y\<bar> \<le> 10 ^ 30 \<Longrightarrow> js_add a b = Some y"
  "fl (a - b) = y \<Longrightarrow> \<bar>y\<bar> \<le> 10 ^ 30 \<Longrightarrow> js_sub a b = Some y"
  "fl (a * b) = y \<Longrightarrow> \<bar>y\<bar> \<le> 10 ^ 30 \<Longrightarrow> js_mul a b = Some y"
  "fl (a / b) = y \<Longrightarrow> \<bar>y\<bar> \<le> 10 ^ 30 \<Longrightarrow> b \<noteq> 0 \<Longrightarrow> js_div a b = Some y"
  using MAX_VALUE_ge by (auto simp: js_add_def js_sub_def js_mul_def js_div_def to_double_def)

lemma literal_tenth: "literal (1/10) = 3602879701896397 / 36028797018963968"
  by code_simp

lemma literal_vref: "literal (33/10) = 3715469692580659 / 1125899906842624"
  by code_simp

lemma in_double_range:
  assumes "- (10 ^ 30) \<le> lo'" and "hi' \<le> 10 ^ 30"
  shows "- MAX_VALUE \<le> lo'" and "hi' \<le> MAX_VALUE"
  using assms MAX_VALUE_ge by linarith+

lemma js_step:
  assumes "lo \<le> x" and "x \<le> hi"
    and "fl lo = lo'" and "fl hi = hi'"
    and "- (10 ^ 30) \<le> lo'" and "hi' \<le> 10 ^ 30"
  shows "to_double x = Some (fl x)" and "lo' \<le> fl x" and "fl x \<le> hi'"
  using to_double_between[OF assms(1-4) in_double_range[OF assms(5,6)]] by simp_all

text \<open>
  From a temperature to the ADC code, with the transfer function and the reference voltage
  of the source: every step is monotone, so that bounds on the temperature carry over.
\<close>

lemma encode_bounds:
  assumes cfg: "TEMP_MIN cfg = 20" "VOLTAGE_REF cfg = literal (33/10)" "ADC_MAX cfg = 4095"
    and t: "tlo \<le> t" "t \<le> thi"
    and a: "fl (tlo - 20) = alo" "fl (thi - 20) = ahi"
    and s: "fl (alo * literal (1/10)) = slo" "fl (ahi * literal (1/10)) = shi"
    and v: "fl (2 + slo) = vlo" "fl (2 + shi) = vhi"
    and q: "fl (vlo / literal (33/10)) = qlo" "fl (vhi / literal (33/10)) = qhi"
    and p: "fl (qlo * 4095) = plo" "fl (qhi * 4095) = phi"
    and small: "- (10 ^ 30) \<le> alo" "ahi \<le> 10 ^ 30" "- (10 ^ 30) \<le> slo" "shi \<le> 10 ^ 30"
      "- (10 ^ 30) \<le> vlo" "vhi \<le> 10 ^ 30" "- (10 ^ 30) \<le> qlo" "qhi \<le> 10 ^ 30"
      "- (10 ^ 30) \<le> plo" "phi \<le> 10 ^ 30"
  shows "\<exists>delta scaled vv ratio raw.
           js_sub t (TEMP_MIN cfg) = Some delta \<and> js_mul delta (literal (1/10)) = Some scaled \<and>
           js_add 2 scaled = Some vv \<and> js_div vv (VOLTAGE_REF cfg) = Some ratio \<and>
           js_mul ratio (ADC_MAX cfg) = Some raw \<and>
           vlo \<le> vv \<and> vv \<le> vhi \<and> \<lfloor>plo\<rfloor> \<le> Math_floor raw \<and> Math_floor raw \<le> \<lfloor>phi\<rfloor>"
proof -
  have c01: "0 < literal (1/10)" and c33: "0 < literal (33/10)"
    by (simp_all add: literal_tenth literal_vref)
  define delta where "delta = fl (t - 20)"
  have A: "to_double (t - 20) = Some delta" "alo \<le> delta" "delta \<le> ahi"
    unfolding delta_def using js_step[of "tlo - 20" "t - 20" "thi - 20", OF _ _ a small(1,2)] t
    by simp_all
  define scaled where "scaled = fl (delta * literal (1/10))"
  have S: "to_double (delta * literal (1/10)) = Some scaled" "slo \<le> scaled" "scaled \<le> shi"
    unfolding scaled_def
    using js_step[of "alo * literal (1/10)" "delta * literal (1/10)" "ahi * literal (1/10)",
        OF _ _ s small(3,4)] A(2,3) c01
    by (simp_all add: mult_right_mono)
  define vv where "vv = fl (2 + scaled)"
  have V: "to_double (2 + scaled) = Some vv" "vlo \<le> vv" "vv \<le> vhi"
    unfolding vv_def using js_step[of "2 + slo" "2 + scaled" "2 + shi", OF _ _ v small(5,6)] S(2,3)
    by simp_all
  define ratio where "ratio = fl (vv / literal (33/10))"
  have Q: "to_double (vv / literal (33/10)) = Some ratio" "qlo \<le> ratio" "ratio \<le> qhi"
    unfolding ratio_def
    using js_step[of "vlo / literal (33/10)" "vv / literal (33/10)" "vhi / literal (33/10)",
        OF _ _ q small(7,8)] V(2,3) c33
    by (simp_all add: divide_right_mono)
  define raw where "raw = fl (ratio * 4095)"
  have P: "to_double (ratio * 4095) = Some raw" "plo \<le> raw" "raw \<le> phi"
    unfolding raw_def
    using js_step[of "qlo * 4095" "ratio * 4095" "qhi * 4095", OF _ _ p small(9,10)] Q(2,3)
    by simp_all
  have "\<lfloor>plo\<rfloor> \<le> Math_floor raw" and "Math_floor raw \<le> \<lfloor>phi\<rfloor>"
    using P(2,3) by (simp_all add: Math_floor_def floor_mono)
  moreover have "js_div vv (VOLTAGE_REF cfg) = Some ratio"
    using Q(1) c33 by (simp add: js_div_def cfg)
  ultimately show ?thesis
    using A(1) S(1) V(1,2,3) P(1) by (simp add: js_sub_def js_mul_def js_add_def cfg)
qed

section \<open>Sampling and encoding with the constants of the source\<close>

lemma updateTemperatureData_SomeI:
  assumes "js_sub (TEMP_MAX cfg) (TEMP_MIN cfg) = Some width"
    and "js_mul r width = Some offset"
    and "js_add (TEMP_MIN cfg) offset = Some t"
    and "js_sub t (TEMP_MIN cfg) = Some delta"
    and "js_mul delta (literal (1/10)) = Some scaled"
    and "js_add 2 scaled = Some v"
    and "js_div v (VOLTAGE_REF cfg) = Some ratio"
    and "js_mul ratio (ADC_MAX cfg) = Some raw"
  shows "updateTemperatureData cfg r w =
           Some (w\<lparr> temperature := t, voltage := v, adcValue := Math_floor raw \<rparr>)"
  using assms by (simp add: updateTemperatureData_def)

lemma updateTemperatureData_SomeD:
  assumes "updateTemperatureData cfg r w = Some w'"
  shows "\<exists>width offset t delta scaled v ratio raw.
           js_sub (TEMP_MAX cfg) (TEMP_MIN cfg) = Some width \<and>
           js_mul r width = Some offset \<and>
           js_add (TEMP_MIN cfg) offset = Some t \<and>
           js_sub t (TEMP_MIN cfg) = Some delta \<and>
           js_mul delta (literal (1/10)) = Some scaled \<and>
           js_add 2 scaled = Some v \<and>
           js_div v (VOLTAGE_REF cfg) = Some ratio \<and>
           js_mul ratio (ADC_MAX cfg) = Some raw \<and>
           w' = w\<lparr> temperature := t, voltage := v, adcValue := Math_floor raw \<rparr>"
  using assms by (auto simp: updateTemperatureData_def bind_eq_Some_conv)

lemma sample_bounds:
  assumes cfg: "TEMP_MIN cfg = 20" "TEMP_MAX cfg = m"
    and m: "0 \<le> m" "m \<le> 25" and r: "0 \<le> r" "r \<le> 1"
  shows "\<exists>width offset t.
           js_sub (TEMP_MAX cfg) (TEMP_MIN cfg) = Some width \<and> js_mul r width = Some offset \<and>
           js_add (TEMP_MIN cfg) offset = Some t \<and> 0 \<le> t \<and> t \<le> 25"
proof -
  have f: "fl (- 20) = - 20" "fl 5 = 5" "fl 0 = 0" "fl 25 = 25"
    by code_simp+
  define width where "width = fl (m - 20)"
  have A: "to_double (m - 20) = Some width" "- 20 \<le> width" "width \<le> 5"
    unfolding width_def using js_step[of "- 20" "m - 20" 5, OF _ _ f(1,2)] m by simp_all
  have "- 20 \<le> r * width \<and> r * width \<le> 5"
  proof (cases "0 \<le> width")
    case True
    then have "0 \<le> r * width" and "r * width \<le> width"
      using r mult_left_le_one_le[of width r] by simp_all
    then show ?thesis using A(3) by simp
  next
    case False
    then have "r * width \<le> 0" and "width \<le> r * width"
      using r mult_left_le_one_le[of "- width" r] by (simp_all add: mult_nonneg_nonpos)
    then show ?thesis using A(2) by simp
  qed
  define offset where "offset = fl (r * width)"
  have B: "to_double (r * width) = Some offset" "- 20 \<le> offset" "offset \<le> 5"
    unfolding offset_def using js_step[of "- 20" "r * width" 5, OF _ _ f(1,2)] \<open>- 20 \<le> r * width \<and> r * width \<le> 5\<close>
    by simp_all
  define t where "t = fl (20 + offset)"
  have C: "to_double (20 + offset) = Some t" "0 \<le> t" "t \<le> 25"
    unfolding t_def using js_step[of 0 "20 + offset" 25, OF _ _ f(3,4)] B(2,3) by simp_all
  show ?thesis
    using A(1) B(1) C by (simp add: js_sub_def js_mul_def js_add_def cfg)
qed

lemma sample_bounds_default:
  assumes cfg: "TEMP_MIN cfg = 20" "TEMP_MAX cfg = 25"
    and r: "0 \<le> r" "r \<le> 1"
  shows "\<exists>offset t.
           js_sub (TEMP_MAX cfg) (TEMP_MIN cfg) = Some 5 \<and> js_mul r 5 = Some offset \<and>
           js_add (TEMP_MIN cfg) offset = Some t \<and> 20 \<le> t \<and> t \<le> 25"
proof -
  have f: "fl 0 = 0" "fl 5 = 5" "fl 20 = 20" "fl 25 = 25"
    by code_simp+
  have "fl (25 - 20) = 5"
    by code_simp
  then have A: "js_sub 25 20 = Some 5"
    by (simp add: js_eval)
  define offset where "offset = fl (r * 5)"
  have B: "to_double (r * 5) = Some offset" "0 \<le> offset" "offset \<le> 5"
    unfolding offset_def using js_step[of 0 "r * 5" 5, OF _ _ f(1,2)] r by simp_all
  define t where "t = fl (20 + offset)"
  have C: "to_double (20 + offset) = Some t" "20 \<le> t" "t \<le> 25"
    unfolding t_def using js_step[of 20 "20 + offset" 25, OF _ _ f(3,4)] B(2,3) by simp_all
  show ?thesis
    using A B(1) C by (simp add: js_mul_def js_add_def cfg)
qed

lemma encode_default:
  assumes cfg: "TEMP_MIN cfg = 20" "VOLTAGE_REF cfg = literal (33/10)" "ADC_MAX cfg = 4095"
    and t: "20 \<le> t" "t \<le> 25"
  shows "\<exists>delta scaled v ratio raw.
           js_sub t (TEMP_MIN cfg) = Some delta \<and> js_mul delta (literal (1/10)) = Some scaled \<and>
           js_add 2 scaled = Some v \<and> js_div v (VOLTAGE_REF cfg) = Some ratio \<and>
           js_mul ratio (ADC_MAX cfg) = Some raw \<and>
           2 \<le> v \<and> v \<le> 5/2 \<and> 2481 \<le> Math_floor raw \<and> Math_floor raw \<le> 3102"
proof -
  have a: "fl (20 - 20) = 0" "fl (25 - 20) = 5"
    by code_simp+
  have s: "fl (0 * literal (1/10)) = 0" "fl (5 * literal (1/10)) = 1/2"
    by code_simp+
  have v: "fl (2 + 0) = 2" "fl (2 + 1/2) = 5/2"
    by code_simp+
  have q: "fl (2 / literal (33/10)) = 5458908639236965 / 9007199254740992"
    "fl ((5/2) / literal (33/10)) = 3411817899523103 / 4503599627370496"
    by code_simp+
  have p: "fl (5458908639236965 / 9007199254740992 * 4095) = 1364393974467491 / 549755813888"
    "fl (3411817899523103 / 4503599627370496 * 4095) = 3410984936168727 / 1099511627776"
    by code_simp+
  have fl: "\<lfloor>1364393974467491 / 549755813888 :: rat\<rfloor> = 2481"
    "\<lfloor>3410984936168727 / 1099511627776 :: rat\<rfloor> = 3102"
    by code_simp+
  show ?thesis
    using encode_bounds[OF cfg t a s v q p] by (simp add: fl)
qed

lemma encode_wide:
  assumes cfg: "TEMP_MIN cfg = 20" "VOLTAGE_REF cfg = literal (33/10)" "ADC_MAX cfg = 4095"
    and t: "0 \<le> t" "t \<le> 25"
  shows "\<exists>delta scaled v ratio raw.
           js_sub t (TEMP_MIN cfg) = Some delta \<and> js_mul delta (literal (1/10)) = Some scaled \<and>
           js_add 2 scaled = Some v \<and> js_div v (VOLTAGE_REF cfg) = Some ratio \<and>
           js_mul ratio (ADC_MAX cfg) = Some raw \<and>
           0 \<le> v \<and> v \<le> 5/2 \<and> 0 \<le> Math_floor raw \<and> Math_floor raw \<le> 3102"
proof -
  have a: "fl (0 - 20) = - 20" "fl (25 - 20) = 5"
    by code_simp+
  have s: "fl (- 20 * literal (1/10)) = - 2" "fl (5 * literal (1/10)) = 1/2"
    by code_simp+
  have v: "fl (2 + - 2) = 0" "fl (2 + 1/2) = 5/2"
    by code_simp+
  have q: "fl (0 / literal (33/10)) = 0"
    "fl ((5/2) / literal (33/10)) = 3411817899523103 / 4503599627370496"
    by code_simp+
  have p: "fl (0 * 4095) = 0"
    "fl (3411817899523103 / 4503599627370496 * 4095) = 3410984936168727 / 1099511627776"
    by code_simp+
  have fl: "\<lfloor>3410984936168727 / 1099511627776 :: rat\<rfloor> = 3102"
    by code_simp
  show ?thesis
    using encode_bounds[OF cfg t a s v q p] by (simp add: fl)
qed

section \<open>Binary and decimal digits\<close>

lemma digit_char_values:
  "digit_char 0 = CHR ''0''" "digit_char 1 = CHR ''1''" "digit_char 2 = CHR ''2''"
  "digit_char 3 = CHR ''3''" "digit_char 4 = CHR ''4''" "digit_char 5 = CHR ''5''"
  "digit_char 6 = CHR ''6''" "digit_char 7 = CHR ''7''" "digit_char 8 = CHR ''8''"
  "digit_char 9 = CHR ''9''"
  by code_simp+

lemma digit_char_Suc_0: "digit_char (Suc 0) = CHR ''1''"
  using digit_char_values(2) by simp

lemma floor_rat_numeral: "\<lfloor>numeral a / numeral b :: rat\<rfloor> = numeral a div numeral b"
  using floor_divide_of_int_eq[of "numeral a" "numeral b", where ?'a = rat] by simp

lemma to_radix_base: "2 \<le> b \<Longrightarrow> n < b \<Longrightarrow> to_radix b n = [digit_char n]"
  by (simp add: to_radix.simps)

lemma to_radix_rec:
  "2 \<le> b \<Longrightarrow> b \<le> n \<Longrightarrow> to_radix b n = to_radix b (n div b) @ [digit_char (n mod b)]"
  by (subst to_radix.simps) simp

lemmas eval_digits = to_radix_base to_radix_rec digit_char_values digit_char_Suc_0 floor_rat_numeral

lemma digit_char_bit: "n < 2 \<Longrightarrow> digit_char n = (if n = 0 then CHR ''0'' else CHR ''1'')"
  using digit_char_values(1,2) by (cases "n = 0") (auto simp: less_2_cases_iff)

lemma to_radix_small: "n < 2 \<Longrightarrow> to_radix 2 n = [digit_char n]"
  by (simp add: to_radix.simps)

lemma to_radix_step: "2 \<le> n \<Longrightarrow> to_radix 2 n = to_radix 2 (n div 2) @ [digit_char (n mod 2)]"
  by (subst to_radix.simps) simp

lemma to_radix_binary_digits: "set (to_radix 2 n) \<subseteq> {CHR ''0'', CHR ''1''}"
proof (induction n rule: less_induct)
  case (less n)
  show ?case
  proof (cases "n < 2")
    case True
    then show ?thesis
      by (simp add: to_radix_small digit_char_bit)
  next
    case False
    then have e: "to_radix 2 n = to_radix 2 (n div 2) @ [digit_char (n mod 2)]"
      using to_radix_step[of n] by simp
    have "n div 2 < n"
      using False by simp
    then have "set (to_radix 2 (n div 2)) \<subseteq> {CHR ''0'', CHR ''1''}"
      by (rule less.IH)
    then show ?thesis
      unfolding e by (simp add: digit_char_bit)
  qed
qed

lemma to_radix_binary_length:
  "2 ^ k \<le> n \<Longrightarrow> n < 2 ^ Suc k \<Longrightarrow> length (to_radix 2 n) = Suc k"
proof (induction k arbitrary: n)
  case 0
  then show ?case
    by (simp add: to_radix_small)
next
  case (Suc k)
  have "2 * 1 \<le> 2 * (2::nat) ^ k"
    by (rule mult_le_mono2) simp
  moreover have "2 ^ Suc k = 2 * (2::nat) ^ k"
    by simp
  ultimately have n: "2 \<le> n"
    using Suc.prems(1) by linarith
  have "2 ^ k \<le> n div 2" and "n div 2 < 2 ^ Suc k"
    using Suc.prems by simp_all
  then have "length (to_radix 2 (n div 2)) = Suc k"
    by (rule Suc.IH)
  then show ?case
    using to_radix_step[OF n] by simp
qed

lemma parseBinary_snoc:
  "parseBinary (s @ [c]) = 2 * parseBinary s + (if c = CHR ''1'' then 1 else 0)"
  by (simp add: parseBinary_def)

lemma parseBinary_to_radix: "parseBinary (to_radix 2 n) = n"
proof (induction n rule: less_induct)
  case (less n)
  show ?case
  proof (cases "n < 2")
    case True
    then show ?thesis
      by (simp add: to_radix_small digit_char_bit parseBinary_def)
  next
    case False
    then have e: "to_radix 2 n = to_radix 2 (n div 2) @ [digit_char (n mod 2)]"
      using to_radix_step[of n] by simp
    have "n div 2 < n"
      using False by simp
    then have "parseBinary (to_radix 2 (n div 2)) = n div 2"
      by (rule less.IH)
    moreover have "n mod 2 = 0 \<or> n mod 2 = 1"
      by arith
    ultimately show ?thesis
      unfolding e parseBinary_snoc by (auto simp: digit_char_values digit_char_Suc_0; arith)
  qed
qed

lemma parseBinary_zeros: "parseBinary (replicate k CHR ''0'' @ s) = parseBinary s"
proof -
  have "foldl (\<lambda>acc c. 2 * acc + (if c = CHR ''1'' then 1 else 0)) (0::nat) (replicate k CHR ''0'') = 0"
    by (induction k) simp_all
  then show ?thesis
    by (simp add: parseBinary_def)
qed

lemma to_radix_binary_short:
  "n < 2 ^ k \<Longrightarrow> 0 < k \<Longrightarrow> length (to_radix 2 n) \<le> k"
proof (induction k arbitrary: n)
  case 0
  then show ?case
    by simp
next
  case (Suc k)
  show ?case
  proof (cases "n < 2")
    case True
    then show ?thesis
      by (simp add: to_radix_small)
  next
    case False
    then have n: "2 \<le> n"
      by simp
    have k: "0 < k"
    proof (rule ccontr)
      assume "\<not> 0 < k"
      then show False
        using Suc.prems(1) n by simp
    qed
    have "n div 2 < 2 ^ k"
      using Suc.prems(1) by simp
    then have "length (to_radix 2 (n div 2)) \<le> k"
      using k by (rule Suc.IH)
    then show ?thesis
      using to_radix_step[OF n] by simp
  qed
qed

lemma to_radix_binary_long:
  "2 ^ k \<le> n \<Longrightarrow> k < length (to_radix 2 n)"
proof (induction k arbitrary: n)
  case 0
  then show ?case
    by (cases "n < 2") (simp_all add: to_radix_small to_radix_step)
next
  case (Suc k)
  have "2 * 1 \<le> 2 * (2::nat) ^ k"
    by (rule mult_le_mono2) simp
  moreover have "2 ^ Suc k = 2 * (2::nat) ^ k"
    by simp
  ultimately have n: "2 \<le> n"
    using Suc.prems(1) by linarith
  have "2 ^ k \<le> n div 2"
    using Suc.prems by simp
  then have "k < length (to_radix 2 (n div 2))"
    by (rule Suc.IH)
  then show ?case
    using to_radix_step[OF n] by simp
qed

lemma to_radix_nonempty: "0 < length (to_radix 2 n)"
  using to_radix_binary_long[of 0 n] by (cases "n = 0") (simp_all add: to_radix_small)

lemma padStart_Some:
  "maxLength \<le> max_string_length \<Longrightarrow>
     padStart maxLength c s = Some (replicate (maxLength - length s) c @ s)"
  by (simp add: padStart_def)

lemma binaryString_Some:
  assumes "nat \<lfloor>ADC_BITS cfg\<rfloor> \<le> max_string_length" and "0 \<le> adc"
  shows "binaryString cfg adc
           = Some (replicate (nat \<lfloor>ADC_BITS cfg\<rfloor> - length (to_radix 2 (nat adc))) CHR ''0''
                     @ to_radix 2 (nat adc))"
  using assms by (simp add: binaryString_def toString2_def padStart_Some)

lemma padded_binary:
  fixes n :: nat and c :: nat
  defines "bits \<equiv> replicate (n - length (to_radix 2 c)) CHR ''0'' @ to_radix 2 c"
  shows "set bits \<subseteq> {CHR ''0'', CHR ''1''}"
    and "parseBinary bits = c"
    and "length bits = max n (length (to_radix 2 c))"
    and "length bits = n \<longleftrightarrow> 0 < n \<and> c < 2 ^ n"
    and "2 ^ n \<le> c \<Longrightarrow> bits = to_radix 2 c"
proof -
  show "set bits \<subseteq> {CHR ''0'', CHR ''1''}"
    using to_radix_binary_digits[of c] by (auto simp: bits_def)
  show "parseBinary bits = c"
    by (simp add: bits_def parseBinary_zeros parseBinary_to_radix)
  show len: "length bits = max n (length (to_radix 2 c))"
    by (simp add: bits_def)
  show "length bits = n \<longleftrightarrow> 0 < n \<and> c < 2 ^ n"
  proof (cases "0 < n \<and> c < 2 ^ n")
    case True
    then have "length (to_radix 2 c) \<le> n"
      using to_radix_binary_short[of c n] by simp
    then show ?thesis
      using True len by simp
  next
    case False
    then have "n < length (to_radix 2 c)"
      using to_radix_binary_long[of n c] to_radix_nonempty[of c] by (cases "n = 0") simp_all
    then show ?thesis
      using False len by simp
  qed
  show "bits = to_radix 2 c" if "2 ^ n \<le> c"
    using to_radix_binary_long[OF that] by (simp add: bits_def)
qed

lemma max_string_length_12: "12 \<le> max_string_length"
  by (simp add: max_string_length_def)

lemma binaryString_12:
  assumes "2048 \<le> adc" and "adc < 4096"
  shows "binaryString Config adc = Some (to_radix 2 (nat adc))"
    and "length (to_radix 2 (nat adc)) = 12"
    and "set (to_radix 2 (nat adc)) \<subseteq> {CHR ''0'', CHR ''1''}"
    and "int (parseBinary (to_radix 2 (nat adc))) = adc"
proof -
  have "2 ^ 11 \<le> nat adc" and "nat adc < 2 ^ Suc 11"
    using assms by simp_all
  then show len: "length (to_radix 2 (nat adc)) = 12"
    using to_radix_binary_length[of 11 "nat adc"] by simp
  have bits: "nat \<lfloor>ADC_BITS Config\<rfloor> = 12"
    by (simp add: Config_def)
  show "binaryString Config adc = Some (to_radix 2 (nat adc))"
    using assms len by (simp add: binaryString_def bits padStart_def toString2_def)
  show "set (to_radix 2 (nat adc)) \<subseteq> {CHR ''0'', CHR ''1''}"
    by (rule to_radix_binary_digits)
  show "int (parseBinary (to_radix 2 (nat adc))) = adc"
    using assms by (simp add: parseBinary_to_radix)
qed

section \<open>The page\<close>

subsection \<open>The writes to the page, as updates of the element cache\<close>

lemma Elements_same: "w\<lparr> Elements := (Elements w)(name := Elements w name) \<rparr> = w"
  by simp

lemma setElementText_alt:
  "setElementText name text w =
     w\<lparr> Elements := (Elements w)(name := map_option (\<lambda>e. e\<lparr> textContent := text \<rparr>) (Elements w name)) \<rparr>"
  by (cases "Elements w name") (auto simp: setElementText_def fun_upd_idem)

lemma setStyle_alt:
  "setStyle name prop val w =
     w\<lparr> Elements := (Elements w)(name :=
          map_option (\<lambda>e. e\<lparr> style := (style e)(prop \<mapsto> val) \<rparr>) (Elements w name)) \<rparr>"
  by (cases "Elements w name") (auto simp: setStyle_def fun_upd_idem)

lemma classList_remove_alt:
  "classList_remove name cls w =
     w\<lparr> Elements := (Elements w)(name :=
          map_option (\<lambda>e. e\<lparr> classList := removeAll cls (classList e) \<rparr>) (Elements w name)) \<rparr>"
  by (cases "Elements w name") (auto simp: classList_remove_def fun_upd_idem)

lemma classList_add_alt:
  "classList_add name cls w =
     w\<lparr> Elements := (Elements w)(name :=
          map_option (\<lambda>e. e\<lparr> classList := (if cls \<in> set (classList e) then classList e
                                                else classList e @ [cls]) \<rparr>)
            (Elements w name)) \<rparr>"
  by (cases "Elements w name") (auto simp: classList_add_def fun_upd_idem)

lemma setSensorIcon_alt:
  "setSensorIcon svg w =
     w\<lparr> Elements := (Elements w)(''sensorIconWrapper'' :=
          map_option (\<lambda>e. e\<lparr> innerHTML := svg \<rparr>) (Elements w ''sensorIconWrapper'')) \<rparr>"
  by (cases "Elements w ''sensorIconWrapper''") (auto simp: setSensorIcon_def fun_upd_idem)

lemma updateModeText_alt:
  "updateModeText mode w =
     w\<lparr> Elements := (Elements w)(''modeText'' :=
          map_option (\<lambda>e. e\<lparr> textContent := (if mode = ''analog'' then ''Capteur Analogique''
                                   else ''Capteur Num'' @ [CHR 0xE9] @ ''rique'') \<rparr>)
            (Elements w ''modeText'')) \<rparr>"
  by (cases "Elements w ''modeText''") (auto simp: updateModeText_def fun_upd_idem)

lemmas page_writes = setElementText_alt setStyle_alt classList_remove_alt classList_add_alt
  setSensorIcon_alt updateModeText_alt showElement_def hideElement_def animateValueUpdate_def

lemma textOf_write [simp]:
  "textOf (w\<lparr> Elements := (Elements w)(name := map_option (\<lambda>e. e\<lparr> textContent := text \<rparr>) (Elements w name)) \<rparr>) n =
     (if n = name \<and> Elements w name \<noteq> None then Some text else textOf w n)"
  by (cases "Elements w name") (auto simp: textOf_def)

lemma updateDigitalDisplay_frame:
  "currentMode (updateDigitalDisplay w) = currentMode w"
  "activeStage (updateDigitalDisplay w) = activeStage w"
  "stageCards (updateDigitalDisplay w) = stageCards w"
  by (simp_all add: updateDigitalDisplay_def Let_def page_writes)

lemma foldl_setTimeout_frame:
  "currentMode (foldl (\<lambda>w' index. setTimeout (f index) (g index) w') w xs) = currentMode w"
  "activeStage (foldl (\<lambda>w' index. setTimeout (f index) (g index) w') w xs) = activeStage w"
  "stageCards (foldl (\<lambda>w' index. setTimeout (f index) (g index) w') w xs) = stageCards w"
  "Elements (foldl (\<lambda>w' index. setTimeout (f index) (g index) w') w xs) = Elements w"
  by (induction xs arbitrary: w) (simp_all add: setTimeout_def)

lemma switchMode_frame:
  "currentMode (switchMode mode w) = mode"
  "activeStage (switchMode mode w) = activeStage w"
  "length (stageCards (switchMode mode w)) = length (stageCards w)"
  by (simp_all add: switchMode_def Let_def updateModeButtons_def updateSensorDisplay_def
      updateProcessingDisplay_def updateApplicationDisplay_def animateModeTransition_def
      console_log_def foldl_setTimeout_frame page_writes)

lemma updateAnalogDisplay_SomeD:
  assumes "updateAnalogDisplay cfg now w = Some w'"
  shows "\<exists>temp volt binary adcText seconds ts.
           toFixed 1 (temperature w) = Some temp \<and> toFixed 2 (voltage w) = Some volt \<and>
           binaryString cfg (adcValue w) = Some binary \<and>
           ToString (adcValue w) = Some adcText \<and> js_div now 1000 = Some seconds \<and>
           ToString (Math_floor seconds) = Some ts \<and>
           w' = animateValueUpdate ''sensorValue''
                 (setElementText ''appDisplay'' (temp @ [CHR 0xB0, CHR ''C''])
                   (setElementText ''jsonPreview''
                      ([CHR ''{'', CHR 0x22] @ ''temp'' @ [CHR 0x22] @ '': '' @ temp @ '', '' @ [CHR 0x22] @ ''ts''
                         @ [CHR 0x22] @ '': '' @ ts @ ''}'')
                     (setElementText ''binaryValue'' binary
                       (setElementText ''adcValue'' adcText
                         (setElementText ''sensorState'' ''Actif''
                           (setElementText ''sensorVoltage'' (volt @ ''V'')
                             (setElementText ''sensorValue'' (temp @ [CHR 0xB0, CHR ''C'']) w)))))))"
  using assms unfolding updateAnalogDisplay_def Let_def bind_eq_Some_conv by auto


lemma updateAnalogDisplay_result:
  assumes "updateAnalogDisplay cfg now w = Some w'"
  shows "textOf w' ''binaryValue'' =
           (if Elements w ''binaryValue'' = None then None
            else binaryString cfg (adcValue w))"
    and "textOf w' ''adcValue'' =
           (if Elements w ''adcValue'' = None then None else ToString (adcValue w))"
    and "currentMode w' = currentMode w" and "activeStage w' = activeStage w"
    and "stageCards w' = stageCards w" and "adcValue w' = adcValue w"
    and "temperature w' = temperature w" and "voltage w' = voltage w"
proof -
  from updateAnalogDisplay_SomeD[OF assms] obtain temp volt binary adcText seconds ts
    where t: "ToString (adcValue w) = Some adcText"
      and b: "binaryString cfg (adcValue w) = Some binary"
      and w': "w' = animateValueUpdate ''sensorValue''
                 (setElementText ''appDisplay'' (temp @ [CHR 0xB0, CHR ''C''])
                   (setElementText ''jsonPreview''
                      ([CHR ''{'', CHR 0x22] @ ''temp'' @ [CHR 0x22] @ '': '' @ temp @ '', '' @ [CHR 0x22] @ ''ts''
                         @ [CHR 0x22] @ '': '' @ ts @ ''}'')
                     (setElementText ''binaryValue'' binary
                       (setElementText ''adcValue'' adcText
                         (setElementText ''sensorState'' ''Actif''
                           (setElementText ''sensorVoltage'' (volt @ ''V'')
                             (setElementText ''sensorValue'' (temp @ [CHR 0xB0, CHR ''C'']) w)))))))"
    by blast
  show "textOf w' ''binaryValue'' =
           (if Elements w ''binaryValue'' = None then None
            else binaryString cfg (adcValue w))"
    unfolding w' b by (cases "Elements w ''binaryValue''") (simp_all add: textOf_def page_writes)
  show "textOf w' ''adcValue'' =
           (if Elements w ''adcValue'' = None then None else ToString (adcValue w))"
    unfolding w' t by (cases "Elements w ''adcValue''") (simp_all add: textOf_def page_writes)
  show "currentMode w' = currentMode w" and "activeStage w' = activeStage w"
    and "stageCards w' = stageCards w" and "adcValue w' = adcValue w"
    and "temperature w' = temperature w" and "voltage w' = voltage w"
    unfolding w' by (simp_all add: page_writes)
qed

lemma updateAnalogDisplay_SomeI:
  assumes "\<bar>temperature w\<bar> < 10 ^ 21" and "\<bar>voltage w\<bar> < 10 ^ 21"
    and "\<bar>adcValue w\<bar> < 10 ^ 21" and "0 \<le> now" and "now \<le> 8640000000000000"
    and "nat \<lfloor>ADC_BITS cfg\<rfloor> \<le> max_string_length"
  shows "\<exists>w'. updateAnalogDisplay cfg now w = Some w'"
proof -
  have f: "fl (0 / 1000) = 0" "fl (8640000000000000 / 1000) = 8640000000000"
    by code_simp+
  define seconds where "seconds = fl (now / 1000)"
  have "to_double (now / 1000) = Some seconds" "0 \<le> seconds" "seconds \<le> 8640000000000"
    unfolding seconds_def
    using js_step[of "0 / 1000" "now / 1000" "8640000000000000 / 1000", OF _ _ f] assms(4,5)
    by (simp_all add: divide_right_mono)
  then have s: "js_div now 1000 = Some seconds" and "0 \<le> Math_floor seconds"
    and "Math_floor seconds \<le> 8640000000000"
    by (simp_all add: js_div_def Math_floor_def floor_le_iff)
  then obtain ts where ts: "ToString (Math_floor seconds) = Some ts"
    by (simp add: ToString_def)
  obtain temp where temp: "toFixed 1 (temperature w) = Some temp"
    using assms(1) by (simp add: toFixed_def Let_def)
  obtain volt where volt: "toFixed 2 (voltage w) = Some volt"
    using assms(2) by (simp add: toFixed_def Let_def)
  obtain adcText where adcText: "ToString (adcValue w) = Some adcText"
    using assms(3) by (simp add: ToString_def)
  obtain binary where binary: "binaryString cfg (adcValue w) = Some binary"
    using assms(6) by (simp add: binaryString_def padStart_Some)
  show ?thesis
    using temp volt binary adcText s ts by (simp add: updateAnalogDisplay_def Let_def)
qed

lemma cycleActiveStage_alt:
  "cycleActiveStage w =
     w\<lparr> activeStage := (case activeStage w of
                          Stage p \<Rightarrow> if length (stageCards w) = 0 then StageNaN
                                     else Stage ((p + 1) mod length (stageCards w))
                        | StageNaN \<Rightarrow> StageNaN),
        stageCards := map (\<lambda>(index, c). updateStageCardState c
                           (Stage index = (case activeStage w of
                          Stage p \<Rightarrow> if length (stageCards w) = 0 then StageNaN
                                     else Stage ((p + 1) mod length (stageCards w))
                        | StageNaN \<Rightarrow> StageNaN)))
                            (zip [0 ..< length (stageCards w)] (stageCards w)) \<rparr>"
  unfolding cycleActiveStage_def Let_def ..

lemma cycleActiveStage_stage:
  "activeStage (cycleActiveStage w) =
     (case activeStage w of
        Stage p \<Rightarrow> if stageCards w = [] then StageNaN
                   else Stage ((p + 1) mod length (stageCards w))
      | StageNaN \<Rightarrow> StageNaN)"
  "length (stageCards (cycleActiveStage w)) = length (stageCards w)"
  "currentMode (cycleActiveStage w) = currentMode w"
  unfolding cycleActiveStage_alt by (simp_all split: stage_index.splits)

lemma cycleActiveStage_funpow_length:
  "length (stageCards ((cycleActiveStage ^^ k) w)) = length (stageCards w)"
  by (induction k) (simp_all add: cycleActiveStage_stage(2))

lemma cycleActiveStage_funpow:
  assumes "stageCards w \<noteq> []" and "activeStage w = Stage p"
  shows "activeStage ((cycleActiveStage ^^ k) w) = Stage ((p + k) mod length (stageCards w))
           \<or> (k = 0 \<and> activeStage ((cycleActiveStage ^^ k) w) = Stage p)"
proof (induction k)
  case 0
  then show ?case using assms by simp
next
  case (Suc k)
  have n: "length (stageCards ((cycleActiveStage ^^ k) w)) = length (stageCards w)"
    by (rule cycleActiveStage_funpow_length)
  then have ne: "stageCards ((cycleActiveStage ^^ k) w) \<noteq> []"
    using assms(1) by auto
  from Suc show ?case
  proof
    assume "activeStage ((cycleActiveStage ^^ k) w) = Stage ((p + k) mod length (stageCards w))"
    then show ?thesis
      using n ne by (simp add: cycleActiveStage_stage mod_Suc_eq)
  next
    assume "k = 0 \<and> activeStage ((cycleActiveStage ^^ k) w) = Stage p"
    then show ?thesis
      using assms by (simp add: cycleActiveStage_stage)
  qed
qed

lemma cycleActiveStage_ticks:
  assumes "stageCards w \<noteq> []" and "activeStage w = Stage p" and "p < length (stageCards w)"
  shows "activeStage ((cycleActiveStage ^^ k) w) = Stage ((p + k) mod length (stageCards w))"
  using cycleActiveStage_funpow[OF assms(1,2), of k] assms(3) by auto

lemma residues_less:
  assumes "(p + i) mod n = (p + j) mod n" and "i < j" and "j < (n::nat)"
  shows False
proof -
  have "n dvd (p + j) - (p + i)"
    using mod_eq_dvd_iff_nat[of "p + i" "p + j" n] assms(1,2) by simp
  then have "n dvd j - i"
    by simp
  moreover have "0 < j - i" and "j - i < n"
    using assms(2,3) by simp_all
  ultimately show False
    using nat_dvd_not_less by blast
qed

lemma distinct_residues: "distinct (map (\<lambda>k. (p + k) mod n) [0 ..< (n::nat)])"
proof -
  have "inj_on (\<lambda>k. (p + k) mod n) {0 ..< n}"
  proof (rule inj_onI)
    fix i j
    assume i: "i \<in> {0 ..< n}" and j: "j \<in> {0 ..< n}" and e: "(p + i) mod n = (p + j) mod n"
    show "i = j"
    proof (rule ccontr)
      assume "i \<noteq> j"
      then consider "i < j" | "j < i"
        by linarith
      then show False
        using residues_less[of p i n j] residues_less[of p j n i] i j e by cases simp_all
    qed
  qed
  then show ?thesis
    by (simp add: distinct_map)
qed

subsection \<open>What the handlers leave alone\<close>

lemma updateTemperatureData_frame:
  assumes "updateTemperatureData cfg r w = Some w'"
  shows "activeStage w' = activeStage w" and "stageCards w' = stageCards w"
    and "currentMode w' = currentMode w" and "Elements w' = Elements w"
  using updateTemperatureData_SomeD[OF assms] by auto

lemma updateDisplay_frame:
  assumes "updateDisplay cfg now w = Some w'"
  shows "activeStage w' = activeStage w" and "stageCards w' = stageCards w"
    and "currentMode w' = currentMode w"
  using assms updateAnalogDisplay_result(3,4,5)[of cfg now w w'] updateDigitalDisplay_frame[of w]
  by (auto simp: updateDisplay_def split: if_splits)

lemma temperatureTick_frame:
  assumes "temperatureTick cfg r now w = Some w'"
  shows "activeStage w' = activeStage w" and "stageCards w' = stageCards w"
    and "currentMode w' = currentMode w"
  using assms updateTemperatureData_frame updateDisplay_frame
  by (auto simp: temperatureTick_def bind_eq_Some_conv split: if_splits)

lemma pirTick_frame:
  assumes "pirTick cfg r now w = Some w'"
  shows "activeStage w' = activeStage w" and "stageCards w' = stageCards w"
    and "currentMode w' = currentMode w"
  using assms updateDisplay_frame[of cfg now "updatePIRData cfg r w" w']
  by (auto simp: pirTick_def updatePIRData_def split: if_splits)

lemma startRealTimeUpdates_frame:
  assumes "startRealTimeUpdates cfg r1 r2 w = Some w'"
  shows "activeStage w' = activeStage w" and "stageCards w' = stageCards w"
    and "currentMode w' = currentMode w" and "Elements w' = Elements w"
  using assms updateTemperatureData_frame
  by (auto simp: startRealTimeUpdates_def bind_eq_Some_conv updatePIRData_def setInterval_def
      Let_def)

lemma startStageAnimations_frame:
  "activeStage (startStageAnimations cfg w) = Stage 0"
  "stageCards (startStageAnimations cfg w) = stageCards w"
  "currentMode (startStageAnimations cfg w) = currentMode w"
  "Elements (startStageAnimations cfg w) = Elements w"
  by (simp_all add: startStageAnimations_def setInterval_def Let_def)

lemma cleanup_frame:
  "activeStage (cleanup w) = activeStage w"
  "stageCards (cleanup w) = stageCards w"
  "currentMode (cleanup w) = currentMode w"
  by (simp_all add: cleanup_def clearIfSet_def clearInterval_def console_log_def Let_def
      split: option.splits)

lemma cardFadeIn_frame:
  "activeStage (cardFadeIn index w) = activeStage w"
  "length (stageCards (cardFadeIn index w)) = length (stageCards w)"
  "currentMode (cardFadeIn index w) = currentMode w"
  by (simp_all add: cardFadeIn_def)

lemma handle_stage:
  assumes "handle cfg ev w = Some w'"
    and "stageCards w \<noteq> []"
  shows "length (stageCards w') = length (stageCards w)"
    and "(\<exists>p. activeStage w = Stage p \<and> p < length (stageCards w))
         \<Longrightarrow> (\<exists>p. activeStage w' = Stage p \<and> p < length (stageCards w'))"
proof -
  show len: "length (stageCards w') = length (stageCards w)"
    using assms(1) switchMode_frame(3) temperatureTick_frame(2) pirTick_frame(2)
      cycleActiveStage_stage(2) cardFadeIn_frame(2) cleanup_frame(2)
      startRealTimeUpdates_frame(2) startStageAnimations_frame(2)
    by (cases ev) (auto simp: handle_def console_log_def bind_eq_Some_conv)
  assume "\<exists>p. activeStage w = Stage p \<and> p < length (stageCards w)"
  then obtain p where p: "activeStage w = Stage p" "p < length (stageCards w)"
    by blast
  show "\<exists>p. activeStage w' = Stage p \<and> p < length (stageCards w')"
  proof (cases ev)
    case (SwitchMode mode)
    then show ?thesis
      using assms(1) p len switchMode_frame(2) by (auto simp: handle_def)
  next
    case (TemperatureTimer r now)
    then show ?thesis
      using assms(1) p len temperatureTick_frame(1) by (auto simp: handle_def)
  next
    case (PirTimer r now)
    then show ?thesis
      using assms(1) p len pirTick_frame(1) by (auto simp: handle_def)
  next
    case AnimationTimer
    then show ?thesis
      using assms p len by (auto simp: handle_def cycleActiveStage_stage)
  next
    case (FadeInTimer index)
    then show ?thesis
      using assms(1) p len cardFadeIn_frame(1) by (auto simp: handle_def)
  next
    case PageHidden
    then show ?thesis
      using assms(1) p len by (auto simp: handle_def cleanup_frame console_log_def)
  next
    case (PageVisible r1 r2)
    then show ?thesis
      using assms len by (auto simp: handle_def bind_eq_Some_conv startStageAnimations_frame)
  next
    case BeforeUnload
    then show ?thesis
      using assms(1) p len by (auto simp: handle_def cleanup_frame)
  qed
qed

lemma run_stage:
  assumes "run cfg evs w = Some w'"
    and "stageCards w \<noteq> []"
    and "\<exists>p. activeStage w = Stage p \<and> p < length (stageCards w)"
  shows "length (stageCards w') = length (stageCards w)
         \<and> (\<exists>p. activeStage w' = Stage p \<and> p < length (stageCards w'))"
  using assms
proof (induction evs arbitrary: w)
  case Nil
  then show ?case
    by simp
next
  case (Cons ev evs)
  then obtain w1 where h: "handle cfg ev w = Some w1" and r: "run cfg evs w1 = Some w'"
    by (auto split: option.splits)
  have 1: "length (stageCards w1) = length (stageCards w)"
    and 2: "\<exists>p. activeStage w1 = Stage p \<and> p < length (stageCards w1)"
    using handle_stage[OF h Cons.prems(2)] Cons.prems(3) by auto
  then have "stageCards w1 \<noteq> []"
    using Cons.prems(2) by auto
  then show ?case
    using Cons.IH[OF r _ 2] 1 by auto
qed

lemma init_stage:
  assumes "init cfg doc r1 r2 now w = Some w'"
  shows "activeStage w' = Stage 0" and "stageCards w' = stage_card_elements doc"
  using assms startRealTimeUpdates_frame(2) updateDisplay_frame(1,2)
  by (auto simp: init_def bind_eq_Some_conv Let_def console_log_def startStageAnimations_frame
      setupEventListeners_def cacheElements_def)

lemma Config_fields:
  "TEMP_MIN Config = 20" "TEMP_MAX Config = 25" "VOLTAGE_REF Config = literal (33/10)"
  "ADC_MAX Config = 4095" "ADC_BITS Config = 12"
  by (simp_all add: Config_def)

lemma updateTemperatureData_default:
  assumes "0 \<le> r" and "r \<le> 1"
  shows "\<exists>w'. updateTemperatureData Config r w = Some w' \<and>
           20 \<le> temperature w' \<and> temperature w' \<le> 25 \<and>
           2 \<le> voltage w' \<and> voltage w' \<le> 5/2 \<and>
           2481 \<le> adcValue w' \<and> adcValue w' \<le> 3102"
proof -
  from sample_bounds_default[OF Config_fields(1,2) assms] obtain offset t
    where s: "js_sub (TEMP_MAX Config) (TEMP_MIN Config) = Some 5" "js_mul r 5 = Some offset"
      "js_add (TEMP_MIN Config) offset = Some t" and t: "20 \<le> t" "t \<le> 25"
    by blast
  from encode_default[OF Config_fields(1,3,4) t] obtain delta scaled v ratio raw
    where e: "js_sub t (TEMP_MIN Config) = Some delta" "js_mul delta (literal (1/10)) = Some scaled"
      "js_add 2 scaled = Some v" "js_div v (VOLTAGE_REF Config) = Some ratio"
      "js_mul ratio (ADC_MAX Config) = Some raw"
      and b: "2 \<le> v" "v \<le> 5/2" "2481 \<le> Math_floor raw" "Math_floor raw \<le> 3102"
    by blast
  show ?thesis
    using updateTemperatureData_SomeI[OF s e, of w] t b by simp
qed

lemma updateTemperatureData_wide:
  assumes cfg: "TEMP_MIN cfg = 20" "TEMP_MAX cfg = m" "VOLTAGE_REF cfg = literal (33/10)"
      "ADC_MAX cfg = 4095"
    and m: "0 \<le> m" "m \<le> 25" and r: "0 \<le> r" "r \<le> 1"
  shows "\<exists>w'. updateTemperatureData cfg r w = Some w' \<and>
           0 \<le> temperature w' \<and> temperature w' \<le> 25 \<and>
           0 \<le> voltage w' \<and> voltage w' \<le> 5/2 \<and>
           0 \<le> adcValue w' \<and> adcValue w' \<le> 3102"
proof -
  from sample_bounds[OF cfg(1,2) m r] obtain width offset t
    where s: "js_sub (TEMP_MAX cfg) (TEMP_MIN cfg) = Some width" "js_mul r width = Some offset"
      "js_add (TEMP_MIN cfg) offset = Some t" and t: "0 \<le> t" "t \<le> 25"
    by blast
  from encode_wide[OF cfg(1,3,4) t] obtain delta scaled v ratio raw
    where e: "js_sub t (TEMP_MIN cfg) = Some delta" "js_mul delta (literal (1/10)) = Some scaled"
      "js_add 2 scaled = Some v" "js_div v (VOLTAGE_REF cfg) = Some ratio"
      "js_mul ratio (ADC_MAX cfg) = Some raw"
      and b: "0 \<le> v" "v \<le> 5/2" "0 \<le> Math_floor raw" "Math_floor raw \<le> 3102"
    by blast
  show ?thesis
    using updateTemperatureData_SomeI[OF s e, of w] t b by simp
qed

section \<open>The claims\<close>

lemma sample_half:
  "js_sub 25 20 = Some 5" "js_mul (1/2) 5 = Some (5/2)" "js_add 20 (5/2) = Some (45/2)"
proof -
  have "fl (25 - 20) = 5" "fl (1/2 * 5) = 5/2" "fl (20 + 5/2) = 45/2"
    by code_simp+
  then show "js_sub 25 20 = Some 5" "js_mul (1/2) 5 = Some (5/2)" "js_add 20 (5/2) = Some (45/2)"
    by (simp_all add: js_eval)
qed

lemma encode_22_5:
  "js_sub (45/2) 20 = Some (5/2)"
  "js_mul (5/2) (literal (1/10)) = Some (1/4)"
  "js_add 2 (1/4) = Some (9/4)"
  "js_div (9/4) (literal (33/10)) = Some (3070636109570793 / 4503599627370496)"
  "js_mul (3070636109570793 / 4503599627370496) 4095 = Some (3069886442551855 / 1099511627776)"
proof -
  have "fl (45/2 - 20) = 5/2"
    "fl (5/2 * literal (1/10)) = 1/4"
    "fl (2 + 1/4) = 9/4"
    "fl (9/4 / literal (33/10)) = 3070636109570793 / 4503599627370496"
    "fl (3070636109570793 / 4503599627370496 * 4095) = 3069886442551855 / 1099511627776"
    by code_simp+
  then show "js_sub (45/2) 20 = Some (5/2)"
    "js_mul (5/2) (literal (1/10)) = Some (1/4)"
    "js_add 2 (1/4) = Some (9/4)"
    "js_div (9/4) (literal (33/10)) = Some (3070636109570793 / 4503599627370496)"
    "js_mul (3070636109570793 / 4503599627370496) 4095 = Some (3069886442551855 / 1099511627776)"
    by (simp_all add: js_eval literal_vref)
qed

lemma floor_2792: "Math_floor (3069886442551855 / 1099511627776) = 2792"
  by (simp add: Math_floor_def floor_rat_numeral)

lemma binaryString_2792: "binaryString Config 2792 = Some ''101011101000''"
  by (simp add: binaryString_def Config_def padStart_def toString2_def eval_digits)

lemma binaryString_2790: "binaryString Config 2790 = Some ''101011100110''"
  by (simp add: binaryString_def Config_def padStart_def toString2_def eval_digits)

lemma updateTemperatureData_half:
  "updateTemperatureData Config (1/2) w =
     Some (w\<lparr> temperature := 45/2, voltage := 9/4, adcValue := 2792 \<rparr>)"
  using updateTemperatureData_SomeI[of Config 5 "1/2" "5/2" "45/2" "5/2" "1/4" "9/4"
      "3070636109570793 / 4503599627370496" "3069886442551855 / 1099511627776" w]
  by (simp add: Config_fields sample_half encode_22_5 floor_2792)

text \<open>
  C1, as amended: with the constants of the source, whenever the sampled temperature is
  22.5 the stored voltage is 2.25, the ADC code is 2792, the floor of 2.25 / 3.3 * 4095
  (also when the quotient is taken exactly), and the bit string written to the page is
  "101011101000".
\<close>

theorem analog_scenario_22_5:
  assumes "updateTemperatureData Config r w = Some w'" and "temperature w' = 45/2"
  shows "voltage w' = 9/4 \<and> adcValue w' = 2792
         \<and> \<lfloor>(9/4) / (33/10) * 4095 :: rat\<rfloor> = 2792
         \<and> binaryString Config (adcValue w') = Some ''101011101000''
         \<and> (\<forall>now w''. updateAnalogDisplay Config now w' = Some w'' \<longrightarrow>
               Elements w' ''binaryValue'' \<noteq> None \<longrightarrow>
               textOf w'' ''binaryValue'' = Some ''101011101000'')"
proof -
  from updateTemperatureData_SomeD[OF assms(1)] obtain t delta scaled v ratio raw
    where e: "js_sub t (TEMP_MIN Config) = Some delta"
      "js_mul delta (literal (1/10)) = Some scaled" "js_add 2 scaled = Some v"
      "js_div v (VOLTAGE_REF Config) = Some ratio" "js_mul ratio (ADC_MAX Config) = Some raw"
      and w': "w' = w\<lparr> temperature := t, voltage := v, adcValue := Math_floor raw \<rparr>"
    by blast
  have t: "t = 45/2"
    using assms(2) w' by simp
  have d: "delta = 5/2"
    using e(1) unfolding t Config_fields encode_22_5 by simp
  have s: "scaled = 1/4"
    using e(2) unfolding d encode_22_5 by simp
  have v: "v = 9/4"
    using e(3) unfolding s encode_22_5 by simp
  have q: "ratio = 3070636109570793 / 4503599627370496"
    using e(4) unfolding v Config_fields encode_22_5 by simp
  have p: "raw = 3069886442551855 / 1099511627776"
    using e(5) unfolding q Config_fields encode_22_5 by simp
  have a: "adcValue w' = 2792" and vv: "voltage w' = 9/4"
    unfolding w' v p by (simp_all add: floor_2792)
  have "\<lfloor>(9/4) / (33/10) * 4095 :: rat\<rfloor> = 2792"
    by (simp add: floor_rat_numeral)
  then show ?thesis
    using vv updateAnalogDisplay_result(1)[of Config _ w'] unfolding a
    by (simp add: binaryString_2792)
qed

theorem analog_scenario_22_5_witness:
  "updateTemperatureData Config (1/2) page_state =
      Some (page_state\<lparr> temperature := 45/2, voltage := 9/4, adcValue := 2792 \<rparr>)
   \<and> adcValue (page_state\<lparr> temperature := 45/2, voltage := 9/4, adcValue := 2792 \<rparr>) = 2792
   \<and> binaryString Config 2792 = Some ''101011101000''"
  using analog_scenario_22_5[OF updateTemperatureData_half[of page_state]]
  by (simp add: updateTemperatureData_half)

text \<open>
  C1 as stated fails: at the reading 22.5 the code is not 2790 and the bit string is not
  "101011100110", which is the bit string of 2790.
\<close>

theorem analog_scenario_22_5_counterexample:
  "map_option temperature (updateTemperatureData Config (1/2) AppState) = Some (45/2)
   \<and> map_option voltage (updateTemperatureData Config (1/2) AppState) = Some (9/4)
   \<and> map_option adcValue (updateTemperatureData Config (1/2) AppState) \<noteq> Some 2790
   \<and> binaryString Config 2792 \<noteq> Some ''101011100110''
   \<and> binaryString Config 2790 = Some ''101011100110''"
  by (simp add: updateTemperatureData_half binaryString_2792 binaryString_2790)

text \<open>
  C7: calling \<^verbatim>\<open>switchMode\<close> with the mode that is already active returns the state as it
  was: the active mode, the data, the page (no element is written, so nothing is rendered
  again), the table of timers and the console are all unchanged.
\<close>

theorem switchMode_active_mode_noop: "switchMode (currentMode w) w = w"
  by (simp add: switchMode_def)



lemma updateDigitalDisplay_text:
  "textOf (updateDigitalDisplay w) ''sensorValue'' =
     (if Elements w ''sensorValue'' = None then None
      else Some (if pirDetected w then ''Mouvement'' else ''Aucun''))"
  "textOf (updateDigitalDisplay w) ''appDisplay'' =
     (if Elements w ''appDisplay'' = None then None
      else Some (if pirDetected w then ''Mouvement'' else ''Aucun''))"
  "textOf (updateDigitalDisplay w) ''sensorVoltage'' =
     (if Elements w ''sensorVoltage'' = None then None
      else Some (if pirDetected w then ''3.3V'' else ''0V''))"
  "textOf (updateDigitalDisplay w) ''gpioVoltage'' =
     (if Elements w ''gpioVoltage'' = None then None
      else Some (if pirDetected w then ''3.3V'' else ''0V''))"
  "textOf (updateDigitalDisplay w) ''sensorState'' =
     (if Elements w ''sensorState'' = None then None
      else Some (if pirDetected w then ''HIGH'' else ''LOW''))"
  "textOf (updateDigitalDisplay w) ''gpioState'' =
     (if Elements w ''gpioState'' = None then None
      else Some (if pirDetected w then ''HIGH'' else ''LOW''))"
  "textOf (updateDigitalDisplay w) ''pirBinary'' =
     (if Elements w ''pirBinary'' = None then None
      else Some (if pirDetected w then ''1'' else ''0''))"
  "textOf (updateDigitalDisplay w) ''pirPayloadBit'' =
     (if Elements w ''pirPayloadBit'' = None then None
      else Some (if pirDetected w then ''1'' else ''0''))"
  by (simp_all add: updateDigitalDisplay_def Let_def textOf_def page_writes option.map_comp
      comp_def split: option.splits)

lemma updateDigitalDisplay_data:
  "pirDetected (updateDigitalDisplay w) = pirDetected w"
  "temperature (updateDigitalDisplay w) = temperature w"
  "voltage (updateDigitalDisplay w) = voltage w"
  "adcValue (updateDigitalDisplay w) = adcValue w"
  "timers (updateDigitalDisplay w) = timers w"
  by (simp_all add: updateDigitalDisplay_def Let_def page_writes)

lemma page_state_present: "Elements page_state name = (if name \<in> set element_names then Some blank else None)"
  by (simp add: page_state_def cacheElements_def example_page_def)

lemma page_state_fields:
  "pirDetected page_state" "currentMode page_state = ''analog''"
  "stageCards page_state = [blank, blank, blank]" "activeStage page_state = Stage 0"
  by (simp_all add: page_state_def cacheElements_def example_page_def AppState_def)

text \<open>
  C4, as amended: the digital encoding is a function of the reading alone. For
  \<open>detected = true\<close> the logic level written is "HIGH", the voltage text is "3.3V" (a
  literal of the source, not read from \<^verbatim>\<open>Config.VOLTAGE_REF\<close>), the bit is "1" and the status
  label is "Mouvement"; for \<open>detected = false\<close> they are "LOW", "0V", "0" and "Aucun".
  Each text reaches every element of the page that shows it, and the sensor data and the
  timers are left as they were.
\<close>

theorem digital_encoding:
  "textOf (updateDigitalDisplay w) ''sensorState'' =
     (if Elements w ''sensorState'' = None then None
      else Some (if pirDetected w then ''HIGH'' else ''LOW''))
   \<and> textOf (updateDigitalDisplay w) ''gpioState'' =
     (if Elements w ''gpioState'' = None then None
      else Some (if pirDetected w then ''HIGH'' else ''LOW''))
   \<and> textOf (updateDigitalDisplay w) ''sensorVoltage'' =
     (if Elements w ''sensorVoltage'' = None then None
      else Some (if pirDetected w then ''3.3V'' else ''0V''))
   \<and> textOf (updateDigitalDisplay w) ''gpioVoltage'' =
     (if Elements w ''gpioVoltage'' = None then None
      else Some (if pirDetected w then ''3.3V'' else ''0V''))
   \<and> textOf (updateDigitalDisplay w) ''pirBinary'' =
     (if Elements w ''pirBinary'' = None then None
      else Some (if pirDetected w then ''1'' else ''0''))
   \<and> textOf (updateDigitalDisplay w) ''pirPayloadBit'' =
     (if Elements w ''pirPayloadBit'' = None then None
      else Some (if pirDetected w then ''1'' else ''0''))
   \<and> textOf (updateDigitalDisplay w) ''sensorValue'' =
     (if Elements w ''sensorValue'' = None then None
      else Some (if pirDetected w then ''Mouvement'' else ''Aucun''))
   \<and> textOf (updateDigitalDisplay w) ''appDisplay'' =
     (if Elements w ''appDisplay'' = None then None
      else Some (if pirDetected w then ''Mouvement'' else ''Aucun''))
   \<and> pirDetected (updateDigitalDisplay w) = pirDetected w
   \<and> temperature (updateDigitalDisplay w) = temperature w
   \<and> voltage (updateDigitalDisplay w) = voltage w
   \<and> adcValue (updateDigitalDisplay w) = adcValue w
   \<and> timers (updateDigitalDisplay w) = timers w"
  by (simp only: updateDigitalDisplay_text updateDigitalDisplay_data simp_thms)

text \<open>
  C4 as stated fails on the status label: on a page that has the element, a detected
  motion is shown as "Mouvement", not "Motion", and no motion as "Aucun", not "None".
\<close>

theorem digital_encoding_counterexample:
  "pirDetected page_state
   \<and> textOf (updateDigitalDisplay page_state) ''sensorValue'' = Some ''Mouvement''
   \<and> textOf (updateDigitalDisplay page_state) ''sensorValue'' \<noteq> Some ''Motion''
   \<and> textOf (updateDigitalDisplay (page_state\<lparr> pirDetected := False \<rparr>)) ''sensorValue''
        = Some ''Aucun''
   \<and> textOf (updateDigitalDisplay (page_state\<lparr> pirDetected := False \<rparr>)) ''sensorValue''
        \<noteq> Some ''None''"
  by (simp add: updateDigitalDisplay_text page_state_present page_state_fields element_names_def)

text \<open>
  C9: with the constants of the source, every ADC code computed from a sample (a random
  value in [0, 1)) lies in [2481, 3102], hence in [0, ADC_MAX]; so the conversion, which
  does not clamp, never leaves the range, and the bit string has 12 characters, never more.
\<close>

theorem default_codes_in_range:
  assumes "0 \<le> r" and "r < 1"
  shows "\<exists>w'. updateTemperatureData Config r w = Some w'
           \<and> 2481 \<le> adcValue w' \<and> adcValue w' \<le> 3102
           \<and> 0 \<le> adcValue w' \<and> of_int (adcValue w') \<le> ADC_MAX Config
           \<and> map_option length (binaryString Config (adcValue w')) = Some 12"
proof -
  from updateTemperatureData_default[of r w] assms obtain w'
    where w': "updateTemperatureData Config r w = Some w'"
      and a: "2481 \<le> adcValue w'" "adcValue w' \<le> 3102"
    by auto
  have "map_option length (binaryString Config (adcValue w')) = Some 12"
    using a binaryString_12(1,2)[of "adcValue w'"] by simp
  moreover have "(of_int (adcValue w') :: rat) \<le> 4095"
    using a(2) by simp
  ultimately show ?thesis
    using w' a by (simp add: Config_fields)
qed

theorem default_codes_in_range_witness:
  "(0::rat) \<le> 1/2 \<and> (1/2::rat) < 1
   \<and> (\<exists>w'. updateTemperatureData Config (1/2) page_state = Some w'
          \<and> adcValue w' = 2792 \<and> 2481 \<le> adcValue w' \<and> adcValue w' \<le> 3102
          \<and> map_option length (binaryString Config (adcValue w')) = Some 12)"
  using default_codes_in_range[of "1/2" page_state]
  by (simp add: updateTemperatureData_half)

lemma updateTemperatureData_zero:
  "updateTemperatureData Config 0 w =
     Some (w\<lparr> temperature := 20, voltage := 2, adcValue := 2481 \<rparr>)"
proof -
  have "fl (25 - 20) = 5" "fl (0 * 5) = 0" "fl (20 + 0) = 20" "fl (20 - 20) = 0"
    "fl (0 * literal (1/10)) = 0" "fl (2 + 0) = 2"
    "fl (2 / literal (33/10)) = 5458908639236965 / 9007199254740992"
    "fl (5458908639236965 / 9007199254740992 * 4095) = 1364393974467491 / 549755813888"
    by code_simp+
  then have "js_sub 25 20 = Some 5" "js_mul 0 5 = Some 0" "js_add 20 0 = Some 20"
    "js_sub 20 20 = Some 0" "js_mul 0 (literal (1/10)) = Some 0" "js_add 2 0 = Some 2"
    "js_div 2 (literal (33/10)) = Some (5458908639236965 / 9007199254740992)"
    "js_mul (5458908639236965 / 9007199254740992) 4095 = Some (1364393974467491 / 549755813888)"
    by (simp_all add: js_eval literal_vref)
  moreover have "Math_floor (1364393974467491 / 549755813888) = 2481"
    by (simp add: Math_floor_def floor_rat_numeral)
  ultimately show ?thesis
    using updateTemperatureData_SomeI[of Config 5 0 0 20 0 0 2
        "5458908639236965 / 9007199254740992" "1364393974467491 / 549755813888" w]
    by (simp add: Config_fields)
qed

lemma updateTemperatureData_low_reference:
  "updateTemperatureData (Config\<lparr> VOLTAGE_REF := 2 \<rparr>) (1/2) w =
     Some (w\<lparr> temperature := 45/2, voltage := 9/4, adcValue := 4606 \<rparr>)"
proof -
  have "fl (9/4 / 2) = 9/8" "fl (9/8 * 4095) = 36855/8"
    by code_simp+
  then have "js_div (9/4) 2 = Some (9/8)" "js_mul (9/8) 4095 = Some (36855/8)"
    by (simp_all add: js_eval)
  moreover have "Math_floor (36855/8) = 4606"
    by (simp add: Math_floor_def floor_rat_numeral)
  ultimately show ?thesis
    using updateTemperatureData_SomeI[of "Config\<lparr> VOLTAGE_REF := 2 \<rparr>" 5 "1/2" "5/2" "45/2" "5/2"
        "1/4" "9/4" "9/8" "36855/8" w]
    by (simp add: Config_fields sample_half encode_22_5)
qed

text \<open>
  C2: the ADC code of every analog reading is the floor of (voltage / VREF) * ADC_MAX,
  computed as the source writes it; ADC_MAX is 4095, that is 2^BITS - 1 for the 12 bits of
  the source; and nothing clamps the code: with a reference voltage of 2 the reading 22.5
  has voltage / VREF = 1.125 and the code 4606, above ADC_MAX.
\<close>

theorem adc_code_unclamped:
  assumes "updateTemperatureData cfg r w = Some w'"
  shows "(\<exists>ratio raw. js_div (voltage w') (VOLTAGE_REF cfg) = Some ratio
            \<and> js_mul ratio (ADC_MAX cfg) = Some raw \<and> adcValue w' = \<lfloor>raw\<rfloor>)
         \<and> ADC_MAX Config = 2 ^ nat \<lfloor>ADC_BITS Config\<rfloor> - 1 \<and> ADC_MAX Config = 4095
         \<and> updateTemperatureData (Config\<lparr> VOLTAGE_REF := 2 \<rparr>) (1/2) w
             = Some (w\<lparr> temperature := 45/2, voltage := 9/4, adcValue := 4606 \<rparr>)
         \<and> 1 < (9/4) / VOLTAGE_REF (Config\<lparr> VOLTAGE_REF := 2 \<rparr>)
         \<and> ADC_MAX (Config\<lparr> VOLTAGE_REF := 2 \<rparr>) < 4606"
proof -
  from updateTemperatureData_SomeD[OF assms]
  have "\<exists>ratio raw. js_div (voltage w') (VOLTAGE_REF cfg) = Some ratio
            \<and> js_mul ratio (ADC_MAX cfg) = Some raw \<and> adcValue w' = \<lfloor>raw\<rfloor>"
    by (auto simp: Math_floor_def)
  then show ?thesis
    by (simp add: updateTemperatureData_low_reference Config_fields)
qed

theorem adc_code_unclamped_witness:
  "updateTemperatureData Config (1/2) page_state
     = Some (page_state\<lparr> temperature := 45/2, voltage := 9/4, adcValue := 2792 \<rparr>)
   \<and> (\<exists>ratio raw. js_div (9/4) (VOLTAGE_REF Config) = Some ratio
          \<and> js_mul ratio (ADC_MAX Config) = Some raw \<and> (2792::int) = \<lfloor>raw\<rfloor>)"
proof -
  have h: "updateTemperatureData Config (1/2) page_state
     = Some (page_state\<lparr> temperature := 45/2, voltage := 9/4, adcValue := 2792 \<rparr>)"
    by (rule updateTemperatureData_half)
  from adc_code_unclamped[OF h, THEN conjunct1]
  have "\<exists>ratio raw. js_div (9/4) (VOLTAGE_REF Config) = Some ratio
          \<and> js_mul ratio (ADC_MAX Config) = Some raw \<and> (2792::int) = \<lfloor>raw\<rfloor>"
    by simp
  with h show ?thesis
    by blast
qed

text \<open>
  C5: the voltage stored with a temperature sample \<open>t\<close> is 2.0 + (t - TEMP_MIN) * 0.1, as
  JavaScript evaluates this expression, and a larger sample never has a smaller voltage.
\<close>

theorem voltage_transfer:
  assumes "updateTemperatureData cfg r1 w1 = Some w1'"
    and "updateTemperatureData cfg r2 w2 = Some w2'"
  shows "do { delta \<leftarrow> js_sub (temperature w1') (TEMP_MIN cfg);
              scaled \<leftarrow> js_mul delta (literal (1/10));
              js_add 2 scaled } = Some (voltage w1')
         \<and> (temperature w1' \<le> temperature w2' \<longrightarrow> voltage w1' \<le> voltage w2')"
proof -
  from updateTemperatureData_SomeD[OF assms(1)] obtain t1 d1 s1 v1
    where 1: "js_sub t1 (TEMP_MIN cfg) = Some d1" "js_mul d1 (literal (1/10)) = Some s1"
      "js_add 2 s1 = Some v1" "temperature w1' = t1" "voltage w1' = v1"
    by auto
  from updateTemperatureData_SomeD[OF assms(2)] obtain t2 d2 s2 v2
    where 2: "js_sub t2 (TEMP_MIN cfg) = Some d2" "js_mul d2 (literal (1/10)) = Some s2"
      "js_add 2 s2 = Some v2" "temperature w2' = t2" "voltage w2' = v2"
    by auto
  have c: "0 \<le> literal (1/10)"
    by (simp add: literal_tenth)
  have v: "v1 = fl (2 + fl (fl (t1 - TEMP_MIN cfg) * literal (1/10)))"
    "v2 = fl (2 + fl (fl (t2 - TEMP_MIN cfg) * literal (1/10)))"
    using 1(1-3) 2(1-3) to_double_Some
    by (auto simp: js_sub_def js_mul_def js_add_def)
  have "v1 \<le> v2" if "t1 \<le> t2"
    unfolding v using that c by (intro fl_mono add_left_mono mult_right_mono) simp_all
  then show ?thesis
    using 1 2 by simp
qed

theorem voltage_transfer_witness:
  "updateTemperatureData Config 0 page_state
     = Some (page_state\<lparr> temperature := 20, voltage := 2, adcValue := 2481 \<rparr>)
   \<and> updateTemperatureData Config (1/2) page_state
     = Some (page_state\<lparr> temperature := 45/2, voltage := 9/4, adcValue := 2792 \<rparr>)
   \<and> do { delta \<leftarrow> js_sub 20 (TEMP_MIN Config);
           scaled \<leftarrow> js_mul delta (literal (1/10));
           js_add 2 scaled } = Some 2
   \<and> (20::rat) \<le> 45/2 \<and> (2::rat) \<le> 9/4"
  using voltage_transfer[OF updateTemperatureData_zero[of page_state]
      updateTemperatureData_half[of page_state]]
  by (simp add: updateTemperatureData_zero updateTemperatureData_half)

lemma updateTemperatureData_data:
  assumes "updateTemperatureData cfg r w = Some w'"
  shows "pirDetected w' = pirDetected w" and "timers w' = timers w"
  using updateTemperatureData_SomeD[OF assms] by auto

lemma updateDisplay_data:
  assumes "updateDisplay cfg now w = Some w'"
  shows "pirDetected w' = pirDetected w" and "adcValue w' = adcValue w"
    and "temperature w' = temperature w" and "voltage w' = voltage w"
proof -
  have "pirDetected w' = pirDetected w" if "updateAnalogDisplay cfg now w = Some w'"
    using updateAnalogDisplay_SomeD[OF that] by (auto simp: page_writes)
  then show "pirDetected w' = pirDetected w"
    using assms updateDigitalDisplay_data(1)[of w]
    by (auto simp: updateDisplay_def split: if_splits)
  show "adcValue w' = adcValue w" and "temperature w' = temperature w"
    and "voltage w' = voltage w"
    using assms updateAnalogDisplay_result(6,7,8)[of cfg now w w'] updateDigitalDisplay_data[of w]
    by (auto simp: updateDisplay_def split: if_splits)
qed

lemma init_runs:
  assumes cfg: "TEMP_MIN cfg = 20" "TEMP_MAX cfg = m" "VOLTAGE_REF cfg = literal (33/10)"
      "ADC_MAX cfg = 4095"
    and m: "0 \<le> m" "m \<le> 25" and r: "0 \<le> r1" "r1 \<le> 1"
    and now: "0 \<le> now" "now \<le> 8640000000000000"
    and bits: "nat \<lfloor>ADC_BITS cfg\<rfloor> \<le> max_string_length"
  shows "\<exists>w'. init cfg doc r1 r2 now w = Some w'
           \<and> pirDetected w' = (r2 < PIR_DETECTION_CHANCE cfg)
           \<and> 0 \<le> adcValue w' \<and> adcValue w' \<le> 3102"
proof -
  define w3 where "w3 = setupEventListeners (cacheElements doc (console_log LogInitializing w))"
  from updateTemperatureData_wide[OF cfg m r, of w3] obtain wT
    where T: "updateTemperatureData cfg r1 w3 = Some wT"
      and b: "0 \<le> temperature wT" "temperature wT \<le> 25" "0 \<le> voltage wT" "voltage wT \<le> 5/2"
        "0 \<le> adcValue wT" "adcValue wT \<le> 3102"
    by blast
  obtain w4 where S: "startRealTimeUpdates cfg r1 r2 w3 = Some w4"
    and f: "temperature w4 = temperature wT" "voltage w4 = voltage wT" "adcValue w4 = adcValue wT"
      "pirDetected w4 = (r2 < PIR_DETECTION_CHANCE cfg)"
    using T by (simp add: startRealTimeUpdates_def updatePIRData_def setInterval_def Let_def)
  define w5 where "w5 = startStageAnimations cfg w4"
  have f5: "temperature w5 = temperature wT" "voltage w5 = voltage wT" "adcValue w5 = adcValue wT"
    "pirDetected w5 = (r2 < PIR_DETECTION_CHANCE cfg)"
    using f by (simp_all add: w5_def startStageAnimations_def setInterval_def Let_def)
  have "\<exists>w6. updateAnalogDisplay cfg now w5 = Some w6"
    using b f5 now bits by (intro updateAnalogDisplay_SomeI) simp_all
  then have "\<exists>w6. updateDisplay cfg now w5 = Some w6"
    by (cases "currentMode w5 = ''analog''") (simp_all add: updateDisplay_def)
  then obtain w6 where D: "updateDisplay cfg now w5 = Some w6"
    by blast
  have "init cfg doc r1 r2 now w = Some (console_log LogReady w6)"
    using S D by (simp add: init_def Let_def w3_def w5_def)
  moreover have "pirDetected (console_log LogReady w6) = (r2 < PIR_DETECTION_CHANCE cfg)"
    "adcValue (console_log LogReady w6) = adcValue wT"
    using updateDisplay_data(1,2)[OF D] f5 by (simp_all add: console_log_def)
  ultimately show ?thesis
    using b by simp
qed

text \<open>
  C3, as amended: \<^verbatim>\<open>init\<close> does not validate the configuration it reads. With a number of ADC
  bits that is 0, negative, or anything else whose integral part is at most
  \<open>max_string_length\<close>, with any detection chance (outside [0, 1] included) and with a
  maximal temperature anywhere in [0, 25] (at or below the minimal temperature 20 included),
  \<^verbatim>\<open>init\<close> succeeds and leaves a running engine whose values are computed from these
  constants. A larger number of ADC bits is outside the statement: there the padding of the
  bit string can exceed the longest string of the engine.
\<close>

theorem init_without_validation:
  assumes "0 \<le> r1" and "r1 < 1" and "0 \<le> m" and "m \<le> 25"
    and "0 \<le> now" and "now \<le> 8640000000000000"
    and "nat \<lfloor>b\<rfloor> \<le> max_string_length"
  shows "\<exists>w'. init (Config\<lparr> ADC_BITS := b, TEMP_MAX := m, PIR_DETECTION_CHANCE := p \<rparr>)
                doc r1 r2 now w = Some w'
           \<and> pirDetected w' = (r2 < p) \<and> 0 \<le> adcValue w' \<and> adcValue w' \<le> 3102"
  using init_runs[of "Config\<lparr> ADC_BITS := b, TEMP_MAX := m, PIR_DETECTION_CHANCE := p \<rparr>" m r1
      now doc r2 w] assms
  by (simp add: Config_fields)

lemma Config_invalid_bits:
  "Config\<lparr> ADC_BITS := 0 \<rparr>
     = Config\<lparr> ADC_BITS := 0, TEMP_MAX := 25, PIR_DETECTION_CHANCE := literal (6/10) \<rparr>"
  by (simp add: Config_def)

theorem init_without_validation_witness:
  "(0::rat) \<le> 1/2 \<and> (1/2::rat) < 1 \<and> (0::rat) \<le> 10 \<and> (10::rat) \<le> 25
   \<and> (0::rat) \<le> 1700000000123 \<and> (1700000000123::rat) \<le> 8640000000000000
   \<and> nat \<lfloor>0::rat\<rfloor> \<le> max_string_length
   \<and> (\<exists>w'. init (Config\<lparr> ADC_BITS := 0, TEMP_MAX := 10, PIR_DETECTION_CHANCE := 2 \<rparr>)
               example_page (1/2) (1/10) 1700000000123 AppState = Some w'
          \<and> pirDetected w')"
  using init_without_validation[where ?r1.0 = "1/2" and m = 10 and now = 1700000000123
      and b = 0 and p = 2 and doc = example_page and ?r2.0 = "1/10" and w = AppState]
  by auto

lemma updateTemperatureData_invalid_range:
  "updateTemperatureData (Config\<lparr> ADC_BITS := 0, TEMP_MAX := 10, PIR_DETECTION_CHANCE := 2 \<rparr>)
     (1/2) w = Some (w\<lparr> temperature := 15, voltage := 3/2, adcValue := 1861 \<rparr>)"
proof -
  have "fl (10 - 20) = - 10" "fl (1/2 * - 10) = - 5" "fl (20 + - 5) = 15" "fl (15 - 20) = - 5"
    "fl (- 5 * literal (1/10)) = - (1/2)" "fl (2 + - (1/2)) = 3/2"
    "fl (3/2 / literal (33/10)) = 1023545369856931 / 2251799813685248"
    "fl (1023545369856931 / 2251799813685248 * 4095) = 4093181923402473 / 2199023255552"
    by code_simp+
  then have "js_sub 10 20 = Some (- 10)" "js_mul (1/2) (- 10) = Some (- 5)"
    "js_add 20 (- 5) = Some 15" "js_sub 15 20 = Some (- 5)"
    "js_mul (- 5) (literal (1/10)) = Some (- (1/2))" "js_add 2 (- (1/2)) = Some (3/2)"
    "js_div (3/2) (literal (33/10)) = Some (1023545369856931 / 2251799813685248)"
    "js_mul (1023545369856931 / 2251799813685248) 4095
       = Some (4093181923402473 / 2199023255552)"
    by (simp_all add: js_eval literal_vref)
  moreover have "Math_floor (4093181923402473 / 2199023255552) = 1861"
    by (simp add: Math_floor_def floor_rat_numeral)
  ultimately show ?thesis
    using updateTemperatureData_SomeI[of
        "Config\<lparr> ADC_BITS := 0, TEMP_MAX := 10, PIR_DETECTION_CHANCE := 2 \<rparr>"
        "- 10" "1/2" "- 5" 15 "- 5" "- (1/2)" "3/2" "1023545369856931 / 2251799813685248"
        "4093181923402473 / 2199023255552" w]
    by (simp add: Config_fields)
qed

lemma binaryString_unpadded:
  "binaryString (Config\<lparr> ADC_BITS := 0, TEMP_MAX := 10, PIR_DETECTION_CHANCE := 2 \<rparr>) 1861
     = Some ''11101000101''"
  by (simp add: binaryString_def padStart_def toString2_def eval_digits)

text \<open>
  C3 as stated fails: \<^verbatim>\<open>init\<close> with \<open>adcBits = 0\<close> does not fail, and neither does it with
  \<open>tempMax \<le> tempMin\<close> and a detection chance of 2 in addition; the values appear later as
  they are computed: the temperature 15, below the minimum, and a bit string of 11
  characters, not padded.
\<close>

theorem init_without_validation_counterexample:
  "init (Config\<lparr> ADC_BITS := 0 \<rparr>) example_page (1/2) (1/10) 1700000000123 AppState \<noteq> None
   \<and> init (Config\<lparr> ADC_BITS := 0, TEMP_MAX := 10, PIR_DETECTION_CHANCE := 2 \<rparr>)
        example_page (1/2) (1/10) 1700000000123 AppState \<noteq> None
   \<and> map_option temperature
        (updateTemperatureData (Config\<lparr> ADC_BITS := 0, TEMP_MAX := 10, PIR_DETECTION_CHANCE := 2 \<rparr>)
           (1/2) AppState) = Some 15
   \<and> binaryString (Config\<lparr> ADC_BITS := 0, TEMP_MAX := 10, PIR_DETECTION_CHANCE := 2 \<rparr>) 1861
        = Some ''11101000101''"
proof -
  have "\<exists>w'. init (Config\<lparr> ADC_BITS := 0 \<rparr>) example_page (1/2) (1/10) 1700000000123 AppState
          = Some w'"
    using init_runs[of "Config\<lparr> ADC_BITS := 0 \<rparr>" 25 "1/2" 1700000000123 example_page "1/10"
        AppState]
    by (simp add: Config_fields) blast
  moreover have "\<exists>w'. init (Config\<lparr> ADC_BITS := 0, TEMP_MAX := 10, PIR_DETECTION_CHANCE := 2 \<rparr>)
        example_page (1/2) (1/10) 1700000000123 AppState = Some w'"
    using init_runs[of "Config\<lparr> ADC_BITS := 0, TEMP_MAX := 10, PIR_DETECTION_CHANCE := 2 \<rparr>" 10
        "1/2" 1700000000123 example_page "1/10" AppState]
    by (simp add: Config_fields) blast
  ultimately show ?thesis
    by (auto simp: updateTemperatureData_invalid_range binaryString_unpadded)
qed

text \<open>
  The failing path of \<^verbatim>\<open>padStart\<close>: when \<^verbatim>\<open>ADC_BITS\<close> is above \<open>max_string_length\<close> and the
  binary numeral of the code is shorter, no bit string is built and no frame is written.
\<close>

lemma updateAnalogDisplay_too_many_bits:
  assumes "max_string_length < nat \<lfloor>ADC_BITS cfg\<rfloor>"
    and "length (toString2 (adcValue w)) < nat \<lfloor>ADC_BITS cfg\<rfloor>"
  shows "updateAnalogDisplay cfg now w = None"
proof -
  have "binaryString cfg (adcValue w) = None"
    using assms by (simp add: binaryString_def padStart_def)
  then show ?thesis
    by (simp add: updateAnalogDisplay_def Let_def split: Option.bind_split)
qed

text \<open>
  So above \<open>max_string_length\<close> the model has no state after \<^verbatim>\<open>init\<close>, for instance with
  \<open>2\<^sup>3\<^sup>0\<close> ADC bits: the first frame is not built. This is the \<^verbatim>\<open>RangeError\<close> of \<^verbatim>\<open>padStart\<close>
  on an engine with this bound, not a check of the configuration.
\<close>

lemma init_too_many_bits:
  assumes "max_string_length < nat \<lfloor>b\<rfloor>"
  shows "init (Config\<lparr> ADC_BITS := b \<rparr>) doc (1/2) r2 now AppState = None"
proof -
  define cfg where "cfg = Config\<lparr> ADC_BITS := b \<rparr>"
  define w3 where "w3 = setupEventListeners (cacheElements doc (console_log LogInitializing AppState))"
  have bits: "nat \<lfloor>ADC_BITS cfg\<rfloor> = nat \<lfloor>b\<rfloor>"
    by (simp add: cfg_def)
  have m3: "currentMode w3 = ''analog''"
    by (simp add: w3_def setupEventListeners_def cacheElements_def console_log_def AppState_def)
  have "updateTemperatureData cfg (1/2) w3 = updateTemperatureData Config (1/2) w3"
    by (simp add: updateTemperatureData_def cfg_def)
  then have T: "updateTemperatureData cfg (1/2) w3
                  = Some (w3\<lparr> temperature := 45/2, voltage := 9/4, adcValue := 2792 \<rparr>)"
    by (simp add: updateTemperatureData_half)
  obtain w4 where S: "startRealTimeUpdates cfg (1/2) r2 w3 = Some w4"
    and a4: "adcValue w4 = 2792"
    using T by (simp add: startRealTimeUpdates_def updatePIRData_def setInterval_def Let_def)
  define w5 where "w5 = startStageAnimations cfg w4"
  have a5: "adcValue w5 = 2792"
    using a4 by (simp add: w5_def startStageAnimations_def setInterval_def Let_def)
  have m5: "currentMode w5 = ''analog''"
    using startRealTimeUpdates_frame(3)[OF S] m3 by (simp add: w5_def startStageAnimations_frame)
  have "length (toString2 (adcValue w5)) = 12"
    unfolding a5 by (simp add: toString2_def eval_digits)
  moreover have "12 < nat \<lfloor>b\<rfloor>"
    using assms by (simp add: max_string_length_def)
  ultimately have "updateAnalogDisplay cfg now w5 = None"
    using assms by (intro updateAnalogDisplay_too_many_bits) (simp_all add: bits)
  then have "updateDisplay cfg now w5 = None"
    using m5 by (simp add: updateDisplay_def)
  then show ?thesis
    using S by (simp add: init_def Let_def w3_def w5_def cfg_def)
qed

lemma init_2_30: "init (Config\<lparr> ADC_BITS := 2 ^ 30 \<rparr>) doc (1/2) r2 now AppState = None"
  by (rule init_too_many_bits) (simp add: max_string_length_def)

lemma distinct_map_Stage: "distinct xs \<Longrightarrow> distinct (map Stage xs)"
  by (simp add: distinct_map inj_on_def)

lemma cycleActiveStage_no_cards:
  "stageCards w = [] \<Longrightarrow> activeStage w = Stage p \<Longrightarrow>
     activeStage (cycleActiveStage w) = StageNaN"
  by (simp add: cycleActiveStage_stage(1))

text \<open>
  C8: on a page with at least one stage card, in every state the program reaches (after
  \<^verbatim>\<open>init\<close> and any sequence of events) the stage pointer \<open>p\<close> satisfies \<open>0 \<le> p < N\<close>, \<open>N\<close> the
  number of stage cards; an animation tick moves it to \<open>(p + 1) mod N\<close>, from \<open>N - 1\<close> to
  \<open>0\<close>; \<open>k\<close> ticks move it to \<open>(p + k) mod N\<close>, so that it takes \<open>N\<close> distinct values and is
  back after \<open>N\<close> ticks; and the tick does not depend on the active mode.
\<close>

theorem stage_pointer_cycle:
  assumes "stage_card_elements doc \<noteq> []"
    and "init cfg doc r1 r2 now w0 = Some w1"
    and "run cfg evs w1 = Some w"
  shows "\<exists>p. activeStage w = Stage p \<and> p < length (stageCards w)
           \<and> length (stageCards w) = length (stage_card_elements doc)
           \<and> activeStage (cycleActiveStage w) = Stage ((p + 1) mod length (stageCards w))
           \<and> (p = length (stageCards w) - 1 \<longrightarrow> activeStage (cycleActiveStage w) = Stage 0)
           \<and> (\<forall>k. activeStage ((cycleActiveStage ^^ k) w)
                    = Stage ((p + k) mod length (stageCards w)))
           \<and> distinct (map (\<lambda>k. activeStage ((cycleActiveStage ^^ k) w))
                        [0 ..< length (stageCards w)])
           \<and> activeStage ((cycleActiveStage ^^ length (stageCards w)) w) = activeStage w
           \<and> (\<forall>mode. activeStage (cycleActiveStage (w\<lparr> currentMode := mode \<rparr>))
                       = activeStage (cycleActiveStage w))"
proof -
  have i: "activeStage w1 = Stage 0" "stageCards w1 = stage_card_elements doc"
    using init_stage[OF assms(2)] by simp_all
  then have ne1: "stageCards w1 \<noteq> []" and "\<exists>p. activeStage w1 = Stage p \<and> p < length (stageCards w1)"
    using assms(1) by simp_all
  from run_stage[OF assms(3) this] obtain p
    where len: "length (stageCards w) = length (stage_card_elements doc)"
      and p: "activeStage w = Stage p" "p < length (stageCards w)"
    using i(2) by auto
  define n where "n = length (stageCards w)"
  have ne: "stageCards w \<noteq> []" and n: "0 < n" "p < n"
    using p(2) by (auto simp: n_def)
  have ticks: "activeStage ((cycleActiveStage ^^ k) w) = Stage ((p + k) mod n)" for k
    unfolding n_def by (rule cycleActiveStage_ticks[OF ne p])
  have one: "activeStage (cycleActiveStage w) = Stage ((p + 1) mod n)"
    using ticks[of 1] by simp
  have wrap: "activeStage (cycleActiveStage w) = Stage 0" if "p = n - 1"
    using one that n by simp
  have eq: "map (\<lambda>k. activeStage ((cycleActiveStage ^^ k) w)) [0 ..< n]
          = map Stage (map (\<lambda>k. (p + k) mod n) [0 ..< n])"
    by (simp add: ticks)
  have dist: "distinct (map (\<lambda>k. activeStage ((cycleActiveStage ^^ k) w)) [0 ..< n])"
    unfolding eq by (rule distinct_map_Stage[OF distinct_residues])
  have again: "activeStage ((cycleActiveStage ^^ n) w) = activeStage w"
    using ticks[of n] n p(1) by simp
  have mode: "activeStage (cycleActiveStage (w\<lparr> currentMode := mode \<rparr>))
                = activeStage (cycleActiveStage w)" for mode
    by (simp add: cycleActiveStage_stage(1) p(1))
  show ?thesis
  proof (intro exI[of _ p] conjI allI impI)
    show "activeStage w = Stage p" and "p < length (stageCards w)"
      and "length (stageCards w) = length (stage_card_elements doc)"
      by (rule p len)+
    show "activeStage (cycleActiveStage w) = Stage ((p + 1) mod length (stageCards w))"
      using one by (simp only: n_def)
    show "activeStage (cycleActiveStage w) = Stage 0" if "p = length (stageCards w) - 1"
      using wrap that by (simp only: n_def)
    show "activeStage ((cycleActiveStage ^^ k) w) = Stage ((p + k) mod length (stageCards w))"
      for k
      using ticks[of k] by (simp only: n_def)
    show "distinct (map (\<lambda>k. activeStage ((cycleActiveStage ^^ k) w))
            [0 ..< length (stageCards w)])"
      using dist by (simp only: n_def)
    show "activeStage ((cycleActiveStage ^^ length (stageCards w)) w) = activeStage w"
      using again by (simp only: n_def)
    show "activeStage (cycleActiveStage (w\<lparr> currentMode := mode \<rparr>))
            = activeStage (cycleActiveStage w)" for mode
      by (rule mode)
  qed
qed

theorem stage_pointer_cycle_witness:
  "stage_card_elements example_page \<noteq> []
   \<and> (\<exists>w1 w. init Config example_page (1/2) (1/10) 1700000000123 AppState = Some w1
          \<and> run Config [AnimationTimer, SwitchMode ''digital''] w1 = Some w
          \<and> activeStage w = Stage 1 \<and> length (stageCards w) = 3
          \<and> activeStage (cycleActiveStage w) = Stage 2
          \<and> activeStage ((cycleActiveStage ^^ 2) w) = Stage 0
          \<and> activeStage ((cycleActiveStage ^^ 3) w) = Stage 1)"
proof -
  have d: "stage_card_elements example_page \<noteq> []"
    and c: "length (stage_card_elements example_page) = 3"
    by (simp_all add: example_page_def)
  from init_runs[of Config 25 "1/2" 1700000000123 example_page "1/10" AppState] obtain w1
    where w1: "init Config example_page (1/2) (1/10) 1700000000123 AppState = Some w1"
    by (auto simp: Config_fields max_string_length_12)
  have s1: "activeStage w1 = Stage 0" "stageCards w1 = stage_card_elements example_page"
    using init_stage[OF w1] by simp_all
  define w where "w = switchMode ''digital'' (cycleActiveStage w1)"
  have r: "run Config [AnimationTimer, SwitchMode ''digital''] w1 = Some w"
    by (simp add: handle_def w_def)
  have "stageCards w1 \<noteq> []" and "length (stageCards w1) = 3"
    using s1(2) d c by simp_all
  then have a: "activeStage w = Stage 1"
    using s1(1) by (simp add: w_def switchMode_frame(2) cycleActiveStage_stage(1))
  from stage_pointer_cycle[OF d w1 r] obtain p
    where p: "activeStage w = Stage p"
      and l: "length (stageCards w) = length (stage_card_elements example_page)"
      and n: "activeStage (cycleActiveStage w) = Stage ((p + 1) mod length (stageCards w))"
      and k: "\<forall>k. activeStage ((cycleActiveStage ^^ k) w)
                    = Stage ((p + k) mod length (stageCards w))"
    by blast
  have p1: "p = 1"
    using a p by simp
  have "activeStage (cycleActiveStage w) = Stage 2"
    "activeStage ((cycleActiveStage ^^ 2) w) = Stage 0"
    "activeStage ((cycleActiveStage ^^ 3) w) = Stage 1"
    using n k[rule_format, of 2] k[rule_format, of 3] unfolding l c p1 by simp_all
  moreover have "length (stageCards w) = 3"
    using l c by simp
  ultimately show ?thesis
    using d w1 r a by blast
qed

lemma updateTemperatureData_five_volt:
  "updateTemperatureData (Config\<lparr> VOLTAGE_REF := 5 \<rparr>) (1/2) w =
     Some (w\<lparr> temperature := 45/2, voltage := 9/4, adcValue := 1842 \<rparr>)"
proof -
  have "fl (9/4 / 5) = 8106479329266893 / 18014398509481984"
    "fl (8106479329266893 / 18014398509481984 * 4095) = 7371/4"
    by code_simp+
  then have "js_div (9/4) 5 = Some (8106479329266893 / 18014398509481984)"
    "js_mul (8106479329266893 / 18014398509481984) 4095 = Some (7371/4)"
    by (simp_all add: js_eval)
  moreover have "Math_floor (7371/4) = 1842"
    by (simp add: Math_floor_def floor_rat_numeral)
  ultimately show ?thesis
    using updateTemperatureData_SomeI[of "Config\<lparr> VOLTAGE_REF := 5 \<rparr>" 5 "1/2" "5/2" "45/2" "5/2"
        "1/4" "9/4" "8106479329266893 / 18014398509481984" "7371/4" w]
    by (simp add: Config_fields sample_half encode_22_5)
qed

lemma to_radix_1842: "to_radix 2 1842 = ''11100110010''"
  by (simp add: eval_digits)

lemma to_radix_4606: "to_radix 2 4606 = ''1000111111110''"
  by (simp add: eval_digits)

text \<open>
  C6, as amended. For every configuration whose number of ADC bits has an integral part \<open>n\<close>
  of at most \<open>max_string_length\<close>, and every ADC code \<open>c \<ge> 0\<close>, the bit string is the binary
  numeral of \<open>c\<close> behind as many '0' as it lacks to \<open>n\<close> characters; it has no other character
  than '0' and '1', reading it back as a binary numeral gives \<open>c\<close>, and it is the text
  written to the element \<^verbatim>\<open>binaryValue\<close>. Its length is \<open>n\<close> exactly when \<open>n \<ge> 1\<close> and
  \<open>c < 2\<^sup>n\<close>: \<^verbatim>\<open>padStart\<close> never cuts, so that a code from \<open>2\<^sup>n\<close> on keeps all its digits, more
  than \<open>n\<close>. With the constants of the source every generated code is below \<open>2\<^sup>n\<close>, \<open>n = 12\<close>.
\<close>

theorem bit_string_format:
  assumes "nat \<lfloor>ADC_BITS cfg\<rfloor> \<le> max_string_length" and "0 \<le> adcValue w"
  shows "\<exists>bits. binaryString cfg (adcValue w) = Some bits
           \<and> bits = replicate (nat \<lfloor>ADC_BITS cfg\<rfloor> - length (to_radix 2 (nat (adcValue w))))
                      CHR ''0'' @ to_radix 2 (nat (adcValue w))
           \<and> set bits \<subseteq> {CHR ''0'', CHR ''1''}
           \<and> int (parseBinary bits) = adcValue w
           \<and> (length bits = nat \<lfloor>ADC_BITS cfg\<rfloor>
                \<longleftrightarrow> 1 \<le> nat \<lfloor>ADC_BITS cfg\<rfloor> \<and> adcValue w < 2 ^ nat \<lfloor>ADC_BITS cfg\<rfloor>)
           \<and> (2 ^ nat \<lfloor>ADC_BITS cfg\<rfloor> \<le> adcValue w \<longrightarrow>
                bits = to_radix 2 (nat (adcValue w)) \<and> nat \<lfloor>ADC_BITS cfg\<rfloor> < length bits)
           \<and> (\<forall>now w'. updateAnalogDisplay cfg now w = Some w' \<longrightarrow>
                 Elements w ''binaryValue'' \<noteq> None \<longrightarrow>
                 textOf w' ''binaryValue'' = Some bits)
           \<and> (\<forall>r w0. 0 \<le> r \<and> r < 1 \<longrightarrow>
                 (\<exists>w1. updateTemperatureData Config r w0 = Some w1 \<and> 0 \<le> adcValue w1
                     \<and> 1 \<le> nat \<lfloor>ADC_BITS Config\<rfloor>
                     \<and> adcValue w1 < 2 ^ nat \<lfloor>ADC_BITS Config\<rfloor>))"
proof -
  define n where "n = nat \<lfloor>ADC_BITS cfg\<rfloor>"
  define c where "c = nat (adcValue w)"
  define bits where "bits = replicate (n - length (to_radix 2 c)) CHR ''0'' @ to_radix 2 c"
  have c: "adcValue w = int c"
    using assms(2) by (simp add: c_def)
  have b: "binaryString cfg (adcValue w) = Some bits"
    using binaryString_Some[OF assms] by (simp add: bits_def n_def c_def)
  have digits: "set bits \<subseteq> {CHR ''0'', CHR ''1''}"
    unfolding bits_def by (rule padded_binary(1))
  have parse: "int (parseBinary bits) = adcValue w"
    unfolding bits_def c by (simp only: padded_binary(2))
  have pow: "adcValue w < 2 ^ n \<longleftrightarrow> c < 2 ^ n" "2 ^ n \<le> adcValue w \<longleftrightarrow> 2 ^ n \<le> c"
    unfolding c by (simp_all add: of_nat_less_numeral_power_cancel_iff
        numeral_power_le_of_nat_cancel_iff)
  have len: "length bits = n \<longleftrightarrow> 1 \<le> n \<and> adcValue w < 2 ^ n"
    unfolding bits_def pow using padded_binary(4)[of n c] by (simp add: Suc_le_eq)
  have long: "bits = to_radix 2 c \<and> n < length bits" if "2 ^ n \<le> adcValue w"
  proof -
    have "2 ^ n \<le> c"
      using that pow(2) by simp
    then show ?thesis
      using padded_binary(5)[of n c] to_radix_binary_long[of n c] by (simp add: bits_def)
  qed
  have written: "textOf w' ''binaryValue'' = Some bits"
    if "updateAnalogDisplay cfg now w = Some w'" and "Elements w ''binaryValue'' \<noteq> None"
    for now w'
    using updateAnalogDisplay_result(1)[OF that(1)] that(2) b by simp
  have gen: "\<exists>w1. updateTemperatureData Config r w0 = Some w1 \<and> 0 \<le> adcValue w1
                \<and> 1 \<le> nat \<lfloor>ADC_BITS Config\<rfloor> \<and> adcValue w1 < 2 ^ nat \<lfloor>ADC_BITS Config\<rfloor>"
    if "0 \<le> r \<and> r < 1" for r w0
  proof -
    from updateTemperatureData_default[of r w0] that obtain w1
      where "updateTemperatureData Config r w0 = Some w1"
        and "2481 \<le> adcValue w1" "adcValue w1 \<le> 3102"
      by auto
    then show ?thesis
      by (simp add: Config_fields)
  qed
  show ?thesis
  proof (intro exI[of _ bits] conjI allI impI)
    show "binaryString cfg (adcValue w) = Some bits"
      by (rule b)
    show "bits = replicate (nat \<lfloor>ADC_BITS cfg\<rfloor> - length (to_radix 2 (nat (adcValue w))))
                   CHR ''0'' @ to_radix 2 (nat (adcValue w))"
      by (simp only: bits_def n_def c_def)
    show "set bits \<subseteq> {CHR ''0'', CHR ''1''}"
      by (rule digits)
    show "int (parseBinary bits) = adcValue w"
      by (rule parse)
    show "length bits = nat \<lfloor>ADC_BITS cfg\<rfloor>
            \<longleftrightarrow> 1 \<le> nat \<lfloor>ADC_BITS cfg\<rfloor> \<and> adcValue w < 2 ^ nat \<lfloor>ADC_BITS cfg\<rfloor>"
      using len by (simp only: n_def)
    show "bits = to_radix 2 (nat (adcValue w))" and "nat \<lfloor>ADC_BITS cfg\<rfloor> < length bits"
      if "2 ^ nat \<lfloor>ADC_BITS cfg\<rfloor> \<le> adcValue w"
      using long[unfolded n_def c_def, OF that] by blast+
    show "textOf w' ''binaryValue'' = Some bits"
      if "updateAnalogDisplay cfg now w = Some w'" and "Elements w ''binaryValue'' \<noteq> None"
      for now w'
      using that by (rule written)
    show "\<exists>w1. updateTemperatureData Config r w0 = Some w1 \<and> 0 \<le> adcValue w1
                \<and> 1 \<le> nat \<lfloor>ADC_BITS Config\<rfloor> \<and> adcValue w1 < 2 ^ nat \<lfloor>ADC_BITS Config\<rfloor>"
      if "0 \<le> r \<and> r < 1" for r w0
      using that by (rule gen)
  qed
qed

theorem bit_string_format_witness:
  "nat \<lfloor>ADC_BITS (Config\<lparr> VOLTAGE_REF := 5 \<rparr>)\<rfloor> \<le> max_string_length
   \<and> updateTemperatureData (Config\<lparr> VOLTAGE_REF := 5 \<rparr>) (1/2) page_state
       = Some (page_state\<lparr> temperature := 45/2, voltage := 9/4, adcValue := 1842 \<rparr>)
   \<and> 0 \<le> adcValue (page_state\<lparr> temperature := 45/2, voltage := 9/4, adcValue := 1842 \<rparr>)
   \<and> to_radix 2 1842 = ''11100110010''
   \<and> (\<exists>bits. binaryString (Config\<lparr> VOLTAGE_REF := 5 \<rparr>) 1842 = Some bits
          \<and> bits = ''011100110010''
          \<and> length bits = nat \<lfloor>ADC_BITS (Config\<lparr> VOLTAGE_REF := 5 \<rparr>)\<rfloor>
          \<and> int (parseBinary bits) = 1842)"
proof -
  define w where "w = page_state\<lparr> temperature := 45/2, voltage := 9/4, adcValue := 1842 \<rparr>"
  have a: "adcValue w = 1842"
    by (simp add: w_def)
  have n: "nat \<lfloor>ADC_BITS (Config\<lparr> VOLTAGE_REF := 5 \<rparr>)\<rfloor> = 12"
    by (simp add: Config_fields)
  have h: "nat \<lfloor>ADC_BITS (Config\<lparr> VOLTAGE_REF := 5 \<rparr>)\<rfloor> \<le> max_string_length" "0 \<le> adcValue w"
    unfolding n a by (simp_all add: max_string_length_def)
  from bit_string_format[OF h] obtain bits
    where b: "binaryString (Config\<lparr> VOLTAGE_REF := 5 \<rparr>) (adcValue w) = Some bits"
      and e: "bits = replicate (nat \<lfloor>ADC_BITS (Config\<lparr> VOLTAGE_REF := 5 \<rparr>)\<rfloor>
                       - length (to_radix 2 (nat (adcValue w)))) CHR ''0''
                     @ to_radix 2 (nat (adcValue w))"
      and p: "int (parseBinary bits) = adcValue w"
      and l: "length bits = nat \<lfloor>ADC_BITS (Config\<lparr> VOLTAGE_REF := 5 \<rparr>)\<rfloor>
                \<longleftrightarrow> 1 \<le> nat \<lfloor>ADC_BITS (Config\<lparr> VOLTAGE_REF := 5 \<rparr>)\<rfloor>
                    \<and> adcValue w < 2 ^ nat \<lfloor>ADC_BITS (Config\<lparr> VOLTAGE_REF := 5 \<rparr>)\<rfloor>"
    by blast
  have v: "bits = ''011100110010''"
    using e unfolding n a by (simp add: to_radix_1842)
  have "length bits = nat \<lfloor>ADC_BITS (Config\<lparr> VOLTAGE_REF := 5 \<rparr>)\<rfloor>"
    using l unfolding n a by simp
  then show ?thesis
    using h b p v unfolding a
    by (simp add: w_def updateTemperatureData_five_volt to_radix_1842)
qed

text \<open>
  C6 as stated fails: the code is not clamped and \<^verbatim>\<open>padStart\<close> does not cut. With a
  reference voltage of 2 and 12 ADC bits, the reading 22.5 has the code 4606, and its bit
  string has 13 characters, not 12.
\<close>

theorem bit_string_format_counterexample:
  "map_option adcValue (updateTemperatureData (Config\<lparr> VOLTAGE_REF := 2 \<rparr>) (1/2) AppState)
     = Some 4606
   \<and> nat \<lfloor>ADC_BITS (Config\<lparr> VOLTAGE_REF := 2 \<rparr>)\<rfloor> = 12
   \<and> binaryString (Config\<lparr> VOLTAGE_REF := 2 \<rparr>) 4606 = Some ''1000111111110''
   \<and> map_option length (binaryString (Config\<lparr> VOLTAGE_REF := 2 \<rparr>) 4606) = Some 13
   \<and> map_option length (binaryString (Config\<lparr> VOLTAGE_REF := 2 \<rparr>) 4606)
       \<noteq> Some (nat \<lfloor>ADC_BITS (Config\<lparr> VOLTAGE_REF := 2 \<rparr>)\<rfloor>)"
proof -
  have "binaryString (Config\<lparr> VOLTAGE_REF := 2 \<rparr>) 4606 = Some ''1000111111110''"
    by (simp add: binaryString_def padStart_def toString2_def Config_fields to_radix_4606)
  then show ?thesis
    by (simp add: updateTemperatureData_low_reference Config_fields)
qed

end
